theory Spec2Isabelle
  imports Main
begin

section \<open>Data model\<close>

text \<open>
  A numpy array of shape \<open>(n_samples, n_features)\<close> is a list of rows together with its
  column count, which a 0-row array still has. The entries are never inspected by the
  code, so their type is a parameter.
\<close>

record 'a matrix =
  ncols :: nat
  rows :: "'a list list"

definition nrows :: "'a matrix \<Rightarrow> nat" where
  "nrows X = length (rows X)"

definition shape :: "'a matrix \<Rightarrow> nat \<times> nat" where
  "shape X = (nrows X, ncols X)"

text \<open>Every row of an array has as many entries as the array has columns.\<close>

definition wf_matrix :: "'a matrix \<Rightarrow> bool" where
  "wf_matrix X = list_all (\<lambda>r. length r = ncols X) (rows X)"

datatype error =
    IndexError
  | NotTwoD "nat \<times> nat"
  | InconsistentLength "nat list"
  | TooFewSamples "nat \<times> nat"
  | TooFewFeatures "nat \<times> nat"
  | BadInputShape "nat \<times> nat"
  | NonzeroOn0d

section \<open>The partitioner\<close>

text \<open>
  The label argument is documented as "list or array" and is used as it comes: a numpy
  array of shape \<open>(n,)\<close> or a Python list.
\<close>

datatype labels = NdArray "int list" | PyList "int list"

text \<open>
  \<open>y == v\<close> with an integer v. On an array it is the elementwise comparison and gives a
  boolean array. A Python list is never equal to an integer: the comparison gives the
  single boolean False.
\<close>

datatype comparison = BoolArray "bool list" | BoolScalar bool

definition eq_elementwise :: "int list \<Rightarrow> int \<Rightarrow> bool list" where
  "eq_elementwise y v = map (\<lambda>l. l = v) y"

definition eq_scalar :: "labels \<Rightarrow> int \<Rightarrow> comparison" where
  "eq_scalar y v =
     (case y of
        NdArray a \<Rightarrow> BoolArray (eq_elementwise a v)
      | PyList _ \<Rightarrow> BoolScalar False)"

text \<open>The positions of the true entries of a 1-d boolean array, ascending.\<close>

definition nonzero_1d :: "bool list \<Rightarrow> nat list" where
  "nonzero_1d c = filter (\<lambda>i. c ! i) [0..<length c]"

text \<open>
  \<open>np.where(c)\<close> with one argument is \<open>nonzero\<close>. What it does to a single boolean (a 0-d
  array) depends on the installed NumPy, which is not part of the sources and is a
  parameter here: up to NumPy 2.0 the boolean is taken as a 1-d array of one entry,
  from NumPy 2.1 the call raises ValueError.
\<close>

datatype numpy = NumPy1 | NumPy2

definition np_where :: "numpy \<Rightarrow> comparison \<Rightarrow> error + nat list" where
  "np_where np c =
     (case c of
        BoolArray a \<Rightarrow> Inr (nonzero_1d a)
      | BoolScalar b \<Rightarrow>
          (case np of
             NumPy1 \<Rightarrow> Inr (nonzero_1d [b])
           | NumPy2 \<Rightarrow> Inl NonzeroOn0d))"

text \<open>
  \<open>X[idx]\<close> with an integer index array: a new array holding the named rows in the
  order of \<open>idx\<close>; an index beyond the last row raises IndexError.
\<close>

definition take_rows :: "'a matrix \<Rightarrow> nat list \<Rightarrow> error + 'a matrix" where
  "take_rows X idx =
     (if list_all (\<lambda>i. i < nrows X) idx
      then Inr \<lparr>ncols = ncols X, rows = map (\<lambda>i. rows X ! i) idx\<rparr>
      else Inl IndexError)"

definition get_sample_indices ::
  "numpy \<Rightarrow> 'a matrix \<Rightarrow> labels \<Rightarrow> error + ('a matrix \<times> 'a matrix)" where
  "get_sample_indices np X y =
     (case np_where np (eq_scalar y 1) of
        Inl e \<Rightarrow> Inl e
      | Inr i1 \<Rightarrow>
          (case take_rows X i1 of
             Inl e \<Rightarrow> Inl e
           | Inr X_outliers \<Rightarrow>
               (case np_where np (eq_scalar y 0) of
                  Inl e \<Rightarrow> Inl e
                | Inr i0 \<Rightarrow>
                    (case take_rows X i0 of
                       Inl e \<Rightarrow> Inl e
                     | Inr X_inliers \<Rightarrow> Inr (X_outliers, X_inliers)))))"

section \<open>Input validation used by the renderer\<close>

text \<open>
  \<open>visualize\<close> validates its arguments with three functions of scikit-learn, which are
  not among the sources. They are modelled by what they do to arrays of rank 1 and 2:
  the checks on rank, on sample and feature counts and on equal lengths. Conversions of
  element types and the finiteness test on floating-point entries are not modelled (the
  entries are abstract).
\<close>

text \<open>A label or prediction argument: an array of shape \<open>(n,)\<close> or a 2-d array.\<close>

datatype array_like = Vec "int list" | Mat "int matrix"

text \<open>
  Modelled from the spec: \<open>column_or_1d\<close> is scikit-learn's. Label and prediction
  vectors are coerced to a flat 1-dimensional shape, and what cannot be reduced to 1-d
  fails: a 1-d array is returned as it is, an array of shape \<open>(n, 1)\<close> is flattened, any
  other 2-d shape raises ValueError naming the shape.
\<close>

definition column_or_1d :: "array_like \<Rightarrow> error + int list" where
  "column_or_1d y =
     (case y of
        Vec v \<Rightarrow> Inr v
      | Mat m \<Rightarrow> if ncols m = 1 then Inr (concat (rows m)) else Inl (BadInputShape (shape m)))"

text \<open>
  Modelled from the spec: \<open>check_consistent_length\<close> is scikit-learn's. A length
  mismatch is fatal and raised immediately: given the sample counts of its arguments,
  the function raises ValueError listing the counts when they are not all equal.
\<close>

definition check_consistent_length :: "nat list \<Rightarrow> error + unit" where
  "check_consistent_length lengths =
     (if length (remdups lengths) > 1 then Inl (InconsistentLength lengths) else Inr ())"

text \<open>
  Modelled from the spec: \<open>check_array\<close> is scikit-learn's, called by \<open>check_X_y\<close>. On a
  2-d array it asks for at least one sample and then for at least one feature (the
  library's defaults \<open>ensure_min_samples=1\<close>, \<open>ensure_min_features=1\<close>).
\<close>

definition check_array :: "'a matrix \<Rightarrow> error + 'a matrix" where
  "check_array X =
     (if nrows X < 1 then Inl (TooFewSamples (shape X))
      else if ncols X < 1 then Inl (TooFewFeatures (shape X))
      else Inr X)"

text \<open>
  Modelled from the spec: \<open>check_X_y\<close> is scikit-learn's. The label vector must be
  length-consistent with the sample matrix: \<open>check_array\<close> on X, \<open>column_or_1d\<close> on y,
  then \<open>check_consistent_length(X, y)\<close>.
\<close>

definition check_X_y :: "'a matrix \<Rightarrow> array_like \<Rightarrow> error + ('a matrix \<times> int list)" where
  "check_X_y X y =
     (case check_array X of
        Inl e \<Rightarrow> Inl e
      | Inr X' \<Rightarrow>
          (case column_or_1d y of
             Inl e \<Rightarrow> Inl e
           | Inr y' \<Rightarrow>
               (case check_consistent_length [nrows X', length y'] of
                  Inl e \<Rightarrow> Inl e
                | Inr _ \<Rightarrow> Inr (X', y'))))"

section \<open>The plotting backend as a log of calls\<close>

text \<open>
  matplotlib's \<open>pyplot\<close> keeps an implicit current figure. The model records the calls
  made to it, in order; a call is appended to the log. The backend's own failures are
  outside the model. \<open>Scatter\<close> carries x, y, label, color, s and marker.
\<close>

datatype 'a plt_call =
    Figure "nat \<times> nat"
  | Suptitle string nat
  | Add_subplot nat
  | Axis string
  | Scatter "'a list" "'a list" string string nat "string option"
  | Title string nat
  | Xticks "'a list"
  | Yticks "'a list"
  | Legend nat nat
  | Savefig string nat
  | Show

type_synonym 'a plt = "'a plt_call list"

type_synonym 'a action = "'a plt \<Rightarrow> (error + unit) \<times> 'a plt"

definition plt_do :: "'a plt_call \<Rightarrow> 'a action" where
  "plt_do c plt = (Inr (), plt @ [c])"

definition skip :: "'a action" where
  "skip plt = (Inr (), plt)"

text \<open>A value computed before a call: raising leaves the log as it is.\<close>

definition bind_res :: "error + 'b \<Rightarrow> ('b \<Rightarrow> 'a action) \<Rightarrow> 'a action" where
  "bind_res r k plt = (case r of Inl e \<Rightarrow> (Inl e, plt) | Inr v \<Rightarrow> k v plt)"

definition raise :: "error \<Rightarrow> 'a action" where
  "raise e plt = (Inl e, plt)"

text \<open>Statements in sequence: the first one that raises ends the run.\<close>

fun run :: "'a action list \<Rightarrow> 'a action" where
  "run [] plt = (Inr (), plt)"
| "run (a # as) plt =
     (case a plt of
        (Inl e, plt') \<Rightarrow> (Inl e, plt')
      | (Inr _, plt') \<Rightarrow> run as plt')"

text \<open>\<open>X[:, j]\<close>: column j of every row; IndexError when X has no such column.\<close>

definition column :: "'a matrix \<Rightarrow> nat \<Rightarrow> error + 'a list" where
  "column X j = (if j < ncols X then Inr (map (\<lambda>r. r ! j) (rows X)) else Inl IndexError)"

definition add_sub_plot ::
  "'a matrix \<Rightarrow> 'a matrix \<Rightarrow> string \<Rightarrow> string \<Rightarrow> string \<Rightarrow> 'a action" where
  "add_sub_plot X_inliers X_outliers sub_plot_title inlier_color outlier_color =
     run [plt_do (Axis ''equal''),
          bind_res (column X_inliers 0) (\<lambda>xi0.
          bind_res (column X_inliers 1) (\<lambda>xi1.
            plt_do (Scatter xi0 xi1 ''inliers'' inlier_color 40 None))),
          bind_res (column X_outliers 0) (\<lambda>xo0.
          bind_res (column X_outliers 1) (\<lambda>xo1.
            plt_do (Scatter xo0 xo1 ''outliers'' outlier_color 50 (Some ''^'')))),
          plt_do (Title sub_plot_title 15),
          plt_do (Xticks []),
          plt_do (Yticks []),
          plt_do (Legend 4 10)]"

section \<open>The comparison renderer\<close>

text \<open>
  The renderer hands the partitioner arrays only, those that \<open>check_X_y\<close> and
  \<open>column_or_1d\<close> return, so the NumPy parameter it passes on has no effect on it.
\<close>

definition visualize ::
  "numpy \<Rightarrow> string \<Rightarrow> 'a matrix \<Rightarrow> array_like \<Rightarrow> 'a matrix \<Rightarrow> array_like \<Rightarrow>
   array_like \<Rightarrow> array_like \<Rightarrow> bool \<Rightarrow> bool \<Rightarrow> 'a action" where
  "visualize np clf_name X_train0 y_train0 X_test0 y_test0 y_train_pred0 y_test_pred0
             show_figure save_figure =
     bind_res (check_X_y X_train0 y_train0) (\<lambda>(X_train, y_train).
     bind_res (check_X_y X_test0 y_test0) (\<lambda>(X_test, y_test).
     bind_res (column_or_1d y_test_pred0) (\<lambda>y_test_pred.
     bind_res (column_or_1d y_train_pred0) (\<lambda>y_train_pred.
     if ncols X_train \<noteq> 2 \<or> ncols X_test \<noteq> 2
     then raise (NotTwoD (shape X_train)) else
     bind_res (check_consistent_length [length y_train, length y_train_pred]) (\<lambda>_.
     bind_res (check_consistent_length [length y_test, length y_test_pred]) (\<lambda>_.
     bind_res (get_sample_indices np X_train (NdArray y_train))
       (\<lambda>(X_train_outliers, X_train_inliers).
     bind_res (get_sample_indices np X_train (NdArray y_train_pred))
       (\<lambda>(X_train_outliers_pred, X_train_inliers_pred).
     bind_res (get_sample_indices np X_test (NdArray y_test))
       (\<lambda>(X_test_outliers, X_test_inliers).
     bind_res (get_sample_indices np X_test (NdArray y_test_pred))
       (\<lambda>(X_test_outliers_pred, X_test_inliers_pred).
     run [plt_do (Figure (12, 10)),
          plt_do (Suptitle (''Demo of '' @ clf_name) 15),
          plt_do (Add_subplot 221),
          add_sub_plot X_train_inliers X_train_outliers
            ''Train set ground truth'' ''blue'' ''orange'',
          plt_do (Add_subplot 222),
          add_sub_plot X_train_inliers_pred X_train_outliers_pred
            ''Train set prediction'' ''blue'' ''orange'',
          plt_do (Add_subplot 223),
          add_sub_plot X_test_inliers X_test_outliers
            ''Test set ground truth'' ''green'' ''red'',
          plt_do (Add_subplot 224),
          add_sub_plot X_test_inliers_pred X_test_outliers_pred
            ''Test set prediction'' ''green'' ''red'',
          (if save_figure then plt_do (Savefig (clf_name @ ''.png'') 300) else skip),
          (if show_figure then plt_do Show else skip)]))))))))))"

section \<open>Reading the call log\<close>

definition titles :: "'a plt \<Rightarrow> string list" where
  "titles plt = concat (map (\<lambda>c. case c of Title t _ \<Rightarrow> [t] | _ \<Rightarrow> []) plt)"

definition subplots :: "'a plt \<Rightarrow> nat list" where
  "subplots plt = concat (map (\<lambda>c. case c of Add_subplot n \<Rightarrow> [n] | _ \<Rightarrow> []) plt)"

text \<open>The label and color of each scatter series, in the order drawn.\<close>

definition scatter_colors :: "'a plt \<Rightarrow> (string \<times> string) list" where
  "scatter_colors plt =
     concat (map (\<lambda>c. case c of Scatter _ _ l col _ _ \<Rightarrow> [(l, col)] | _ \<Rightarrow> []) plt)"

text \<open>The files written: path and dpi of each \<open>savefig\<close> call.\<close>

definition saved_files :: "'a plt \<Rightarrow> (string \<times> nat) list" where
  "saved_files plt = concat (map (\<lambda>c. case c of Savefig f d \<Rightarrow> [(f, d)] | _ \<Rightarrow> []) plt)"

text \<open>
  \<open>savefig\<close> opens the path it is given. On a POSIX system a path names an entry of the
  current working directory itself when it has no separator.
\<close>

definition in_working_directory :: "string \<Rightarrow> bool" where
  "in_working_directory fname = (CHR ''/'' \<notin> set fname)"

section \<open>The partitioner on a heap of arrays\<close>

text \<open>
  To say that the partitioner leaves its arguments alone, arrays live in a heap and the
  function receives references. The heap keeps the 2-d sample arrays, the 1-d label
  objects, and the comparison results and index arrays that \<open>y == v\<close> and \<open>np.where\<close>
  create. A reference is a position in its list; a Python reference always names a live
  object, so the functions are meant for references inside the heap. Every numpy
  operation used here allocates its result: a comparison, \<open>np.where\<close>, and indexing with
  an index array (which copies).
\<close>

record 'a heap =
  matrices :: "'a matrix list"
  vectors :: "labels list"
  masks :: "comparison list"
  index_arrays :: "nat list list"

definition heap_eq_scalar :: "nat \<Rightarrow> int \<Rightarrow> 'a heap \<Rightarrow> nat \<times> 'a heap" where
  "heap_eq_scalar y v h =
     (length (masks h), h\<lparr>masks := masks h @ [eq_scalar (vectors h ! y) v]\<rparr>)"

definition heap_np_where :: "numpy \<Rightarrow> nat \<Rightarrow> 'a heap \<Rightarrow> (error + nat) \<times> 'a heap" where
  "heap_np_where np c h =
     (case np_where np (masks h ! c) of
        Inl e \<Rightarrow> (Inl e, h)
      | Inr idx \<Rightarrow>
          (Inr (length (index_arrays h)), h\<lparr>index_arrays := index_arrays h @ [idx]\<rparr>))"

definition heap_take_rows :: "nat \<Rightarrow> nat \<Rightarrow> 'a heap \<Rightarrow> (error + nat) \<times> 'a heap" where
  "heap_take_rows X idx h =
     (case take_rows (matrices h ! X) (index_arrays h ! idx) of
        Inl e \<Rightarrow> (Inl e, h)
      | Inr M \<Rightarrow> (Inr (length (matrices h)), h\<lparr>matrices := matrices h @ [M]\<rparr>))"

text \<open>One of the two selections, \<open>X[np.where(y == v)]\<close>: a reference to the new array.\<close>

definition heap_select :: "numpy \<Rightarrow> nat \<Rightarrow> nat \<Rightarrow> int \<Rightarrow> 'a heap \<Rightarrow> (error + nat) \<times> 'a heap" where
  "heap_select np X y v h0 =
     (let (c, h1) = heap_eq_scalar y v h0
      in (case heap_np_where np c h1 of
            (Inl e, h2) \<Rightarrow> (Inl e, h2)
          | (Inr i, h2) \<Rightarrow> heap_take_rows X i h2))"

definition get_sample_indices_heap ::
  "numpy \<Rightarrow> nat \<Rightarrow> nat \<Rightarrow> 'a heap \<Rightarrow> (error + nat \<times> nat) \<times> 'a heap" where
  "get_sample_indices_heap np X y h0 =
     (case heap_select np X y 1 h0 of
        (Inl e, h1) \<Rightarrow> (Inl e, h1)
      | (Inr X_outliers, h1) \<Rightarrow>
          (case heap_select np X y 0 h1 of
             (Inl e, h2) \<Rightarrow> (Inl e, h2)
           | (Inr X_inliers, h2) \<Rightarrow> (Inr (X_outliers, X_inliers), h2)))"

section \<open>Reference notions and example inputs\<close>

text \<open>
  The rows of X that carry label v, in their original order, said directly: pair each
  row with its label and keep the pairs labelled v.
\<close>

definition rows_with_label :: "'a matrix \<Rightarrow> int list \<Rightarrow> int \<Rightarrow> 'a list list" where
  "rows_with_label X y v = map fst (filter (\<lambda>p. snd p = v) (zip (rows X) y))"

definition X3 :: "int matrix" where
  "X3 = \<lparr>ncols = 2, rows = [[10, 11], [20, 21], [30, 31]]\<rparr>"

definition X1 :: "int matrix" where
  "X1 = \<lparr>ncols = 2, rows = [[10, 11]]\<rparr>"

definition X1_wide :: "int matrix" where
  "X1_wide = \<lparr>ncols = 3, rows = [[10, 11, 12]]\<rparr>"

text \<open>A heap with one sample array and one label array, and what two calls make of it.\<close>

definition h0 :: "int heap" where
  "h0 = \<lparr>matrices = [X3], vectors = [NdArray [0, 1, 0]], masks = [], index_arrays = []\<rparr>"

definition h1 :: "int heap" where
  "h1 = \<lparr>matrices = [X3, \<lparr>ncols = 2, rows = [[20, 21]]\<rparr>,
                      \<lparr>ncols = 2, rows = [[10, 11], [30, 31]]\<rparr>],
          vectors = [NdArray [0, 1, 0]],
          masks = [BoolArray [False, True, False], BoolArray [True, False, True]],
          index_arrays = [[1], [0, 2]]\<rparr>"

definition h2 :: "int heap" where
  "h2 = \<lparr>matrices = [X3, \<lparr>ncols = 2, rows = [[20, 21]]\<rparr>,
                      \<lparr>ncols = 2, rows = [[10, 11], [30, 31]]\<rparr>,
                      \<lparr>ncols = 2, rows = [[20, 21]]\<rparr>,
                      \<lparr>ncols = 2, rows = [[10, 11], [30, 31]]\<rparr>],
          vectors = [NdArray [0, 1, 0]],
          masks = [BoolArray [False, True, False], BoolArray [True, False, True],
                   BoolArray [False, True, False], BoolArray [True, False, True]],
          index_arrays = [[1], [0, 2], [1], [0, 2]]\<rparr>"

section \<open>Facts about the partitioner\<close>

lemma set_nonzero_eq:
  "set (nonzero_1d (eq_elementwise y v)) = {i. i < length y \<and> y ! i = v}"
  by (auto simp: nonzero_1d_def eq_elementwise_def)

lemma sorted_nonzero: "sorted_wrt (<) (nonzero_1d c)"
  unfolding nonzero_1d_def by (rule sorted_wrt_filter) simp

lemma distinct_nonzero: "distinct (nonzero_1d c)"
  by (simp add: nonzero_1d_def)

lemma nonzero_eq_filter:
  "nonzero_1d (eq_elementwise y v) = filter (\<lambda>i. y ! i = v) [0..<length y]"
  by (auto simp: nonzero_1d_def eq_elementwise_def intro: filter_cong)

lemma zip_as_map_upt:
  "length xs = length ys \<Longrightarrow> zip xs ys = map (\<lambda>i. (xs ! i, ys ! i)) [0..<length ys]"
  by (rule nth_equalityI) simp_all

lemma select_eq_rows_with_label:
  assumes "length y = nrows X"
  shows "map (\<lambda>i. rows X ! i) (nonzero_1d (eq_elementwise y v)) = rows_with_label X y v"
proof -
  have "length (rows X) = length y"
    using assms by (simp add: nrows_def)
  then show ?thesis
    by (simp add: rows_with_label_def zip_as_map_upt filter_map o_def nonzero_eq_filter)
qed

lemma take_rows_Inr:
  "\<forall>i\<in>set idx. i < nrows X \<Longrightarrow>
   take_rows X idx = Inr \<lparr>ncols = ncols X, rows = map (\<lambda>i. rows X ! i) idx\<rparr>"
  by (simp add: take_rows_def list_all_iff)

lemma take_rows_Inl:
  "\<exists>i\<in>set idx. \<not> i < nrows X \<Longrightarrow> take_rows X idx = Inl IndexError"
  by (auto simp: take_rows_def list_all_iff)

lemma take_rows_wf:
  assumes "wf_matrix X" and "take_rows X idx = Inr M"
  shows "wf_matrix M \<and> ncols M = ncols X"
  using assms
  by (auto simp: take_rows_def wf_matrix_def list_all_iff nrows_def split: if_splits)

lemma take_rows_where:
  "length y \<le> nrows X \<Longrightarrow>
   take_rows X (nonzero_1d (eq_elementwise y v)) =
     Inr \<lparr>ncols = ncols X, rows = map (\<lambda>i. rows X ! i) (nonzero_1d (eq_elementwise y v))\<rparr>"
  by (rule take_rows_Inr) (simp add: set_nonzero_eq)

lemma np_where_ndarray:
  "np_where np (eq_scalar (NdArray y) v) = Inr (nonzero_1d (eq_elementwise y v))"
  by (simp add: np_where_def eq_scalar_def)

lemma np_where_list:
  "np_where np (eq_scalar (PyList y) v) = (case np of NumPy1 \<Rightarrow> Inr [] | NumPy2 \<Rightarrow> Inl NonzeroOn0d)"
  by (simp add: np_where_def eq_scalar_def nonzero_1d_def split: numpy.splits)

lemma get_sample_indices_ndarray:
  "get_sample_indices np X (NdArray y) =
     (case take_rows X (nonzero_1d (eq_elementwise y 1)) of
        Inl e \<Rightarrow> Inl e
      | Inr X_outliers \<Rightarrow>
          (case take_rows X (nonzero_1d (eq_elementwise y 0)) of
             Inl e \<Rightarrow> Inl e
           | Inr X_inliers \<Rightarrow> Inr (X_outliers, X_inliers)))"
  by (simp add: get_sample_indices_def np_where_ndarray split: sum.splits)

lemma get_sample_indices_list:
  "get_sample_indices np X (PyList y) =
     (case np of
        NumPy1 \<Rightarrow> Inr (\<lparr>ncols = ncols X, rows = []\<rparr>, \<lparr>ncols = ncols X, rows = []\<rparr>)
      | NumPy2 \<Rightarrow> Inl NonzeroOn0d)"
  by (simp add: get_sample_indices_def np_where_list take_rows_def split: numpy.splits)

lemma get_sample_indices_short:
  "length y \<le> nrows X \<Longrightarrow>
   get_sample_indices np X (NdArray y) =
     Inr (\<lparr>ncols = ncols X, rows = map (\<lambda>i. rows X ! i) (nonzero_1d (eq_elementwise y 1))\<rparr>,
          \<lparr>ncols = ncols X, rows = map (\<lambda>i. rows X ! i) (nonzero_1d (eq_elementwise y 0))\<rparr>)"
  by (simp add: get_sample_indices_ndarray take_rows_where)

lemma length_nonzero_eq:
  "length (nonzero_1d (eq_elementwise y v)) = length (filter (\<lambda>l. l = v) y)"
proof -
  have "length (filter (\<lambda>l. l = v) (map (\<lambda>i. y ! i) [0..<length y])) =
        length (nonzero_1d (eq_elementwise y v))"
    unfolding filter_map by (simp add: nonzero_eq_filter o_def)
  then show ?thesis
    by (simp add: map_nth)
qed

lemma count_labels:
  "length (filter (\<lambda>l. l = 1) y) + length (filter (\<lambda>l. l = 0) y) +
   length (filter (\<lambda>l. l \<noteq> 0 \<and> l \<noteq> 1) y) = length (y :: int list)"
  by (induction y) auto

lemma disjoint_where:
  "v \<noteq> w \<Longrightarrow> set (nonzero_1d (eq_elementwise y v)) \<inter> set (nonzero_1d (eq_elementwise y w)) = {}"
  by (auto simp: set_nonzero_eq)

section \<open>Properties of the partitioner\<close>

text \<open>
  With a numpy array as label vector the partitioner does what its contract says. For
  X and an array y of the same length whose entries are all 0 or 1, it returns (outliers,
  inliers): the outliers are exactly the rows labelled 1 and the inliers exactly the rows
  labelled 0, each in ascending row order; the two index sets are disjoint, together
  they are all rows, and the row counts add up to the row count of X.
\<close>

lemma partition_binary_labels_ndarray:
  assumes "length y = nrows X" and "set y \<subseteq> {0, 1}"
  shows "\<exists>X_outliers X_inliers I1 I0.
           get_sample_indices np X (NdArray y) = Inr (X_outliers, X_inliers) \<and>
           rows X_outliers = map (\<lambda>i. rows X ! i) I1 \<and>
           rows X_inliers = map (\<lambda>i. rows X ! i) I0 \<and>
           sorted_wrt (<) I1 \<and> sorted_wrt (<) I0 \<and>
           set I1 = {i. i < nrows X \<and> y ! i = 1} \<and>
           set I0 = {i. i < nrows X \<and> y ! i = 0} \<and>
           set I1 \<inter> set I0 = {} \<and>
           set I1 \<union> set I0 = {..<nrows X} \<and>
           rows X_outliers = rows_with_label X y 1 \<and>
           rows X_inliers = rows_with_label X y 0 \<and>
           ncols X_outliers = ncols X \<and> ncols X_inliers = ncols X \<and>
           nrows X_outliers + nrows X_inliers = nrows X"
proof -
  let ?I1 = "nonzero_1d (eq_elementwise y 1)" and ?I0 = "nonzero_1d (eq_elementwise y 0)"
  let ?Xo = "\<lparr>ncols = ncols X, rows = map (\<lambda>i. rows X ! i) ?I1\<rparr>"
  let ?Xi = "\<lparr>ncols = ncols X, rows = map (\<lambda>i. rows X ! i) ?I0\<rparr>"
  have res: "get_sample_indices np X (NdArray y) = Inr (?Xo, ?Xi)"
    using assms(1) by (simp add: get_sample_indices_short)
  have binary: "y ! i = 0 \<or> y ! i = 1" if "i < length y" for i
    using assms(2) that by (auto dest: nth_mem)
  have cover: "set ?I1 \<union> set ?I0 = {..<nrows X}"
    using assms(1) binary by (auto simp: set_nonzero_eq)
  have count: "length ?I1 + length ?I0 = nrows X"
  proof -
    have "filter (\<lambda>l. l \<noteq> 0 \<and> l \<noteq> 1) y = []"
      using assms(2) by (auto simp: filter_empty_conv)
    then show ?thesis
      using count_labels[of y] assms(1) by (simp add: length_nonzero_eq)
  qed
  have sel: "map (\<lambda>i. rows X ! i) ?I1 = rows_with_label X y 1"
    "map (\<lambda>i. rows X ! i) ?I0 = rows_with_label X y 0"
    using assms(1) by (simp_all add: select_eq_rows_with_label)
  have sets: "set ?I1 = {i. i < nrows X \<and> y ! i = 1}" "set ?I0 = {i. i < nrows X \<and> y ! i = 0}"
    using assms(1) by (simp_all add: set_nonzero_eq)
  have disj: "set ?I1 \<inter> set ?I0 = {}"
    by (simp add: disjoint_where)
  have total: "nrows ?Xo + nrows ?Xi = nrows X"
    using count by (simp add: nrows_def)
  show ?thesis
    using res sel sets disj cover total sorted_nonzero[of "eq_elementwise y 1"]
      sorted_nonzero[of "eq_elementwise y 0"]
    by (intro exI[of _ ?Xo] exI[of _ ?Xi] exI[of _ ?I1] exI[of _ ?I0]) simp
qed

text \<open>
  C1, at a Python list. The docstring admits a list as label vector, and the code never
  converts it. For the three rows of \<open>X3\<close> and the list \<open>[0, 1, 0]\<close> the comparison
  \<open>y == 1\<close> is the single boolean False: on NumPy up to 2.0 both results are empty
  arrays, from NumPy 2.1 the call raises. In neither case is the row labelled 1, which
  is \<open>[20, 21]\<close>, among the outliers.
\<close>

theorem partition_list_labels:
  "length [0, 1, 0 :: int] = nrows X3 \<and> set [0, 1, 0 :: int] \<subseteq> {0, 1} \<and>
   rows_with_label X3 [0, 1, 0] 1 = [[20, 21]] \<and>
   get_sample_indices NumPy1 X3 (PyList [0, 1, 0]) =
     Inr (\<lparr>ncols = 2, rows = []\<rparr>, \<lparr>ncols = 2, rows = []\<rparr>) \<and>
   get_sample_indices NumPy2 X3 (PyList [0, 1, 0]) = Inl NonzeroOn0d"
  by (simp add: get_sample_indices_list rows_with_label_def nrows_def X3_def)

text \<open>
  C2, as the code has it. For X and an array y of equal length, with any label values,
  the call returns; the outliers are the rows labelled 1 and the inliers the rows
  labelled 0, no row index is in both, and the two row counts plus the number of labels
  outside \<open>{0, 1}\<close> make the row count of X. A row with another label is in neither subset,
  so the partition is disjoint but total only for binary labels.
\<close>

theorem partition_disjoint_count:
  assumes "length y = nrows X"
  shows "\<exists>X_outliers X_inliers I1 I0.
           get_sample_indices np X (NdArray y) = Inr (X_outliers, X_inliers) \<and>
           rows X_outliers = map (\<lambda>i. rows X ! i) I1 \<and>
           rows X_inliers = map (\<lambda>i. rows X ! i) I0 \<and>
           distinct I1 \<and> distinct I0 \<and>
           set I1 = {i. i < nrows X \<and> y ! i = 1} \<and>
           set I0 = {i. i < nrows X \<and> y ! i = 0} \<and>
           set I1 \<inter> set I0 = {} \<and>
           nrows X_outliers + nrows X_inliers + length (filter (\<lambda>l. l \<noteq> 0 \<and> l \<noteq> 1) y)
             = nrows X"
proof -
  let ?I1 = "nonzero_1d (eq_elementwise y 1)" and ?I0 = "nonzero_1d (eq_elementwise y 0)"
  let ?Xo = "\<lparr>ncols = ncols X, rows = map (\<lambda>i. rows X ! i) ?I1\<rparr>"
  let ?Xi = "\<lparr>ncols = ncols X, rows = map (\<lambda>i. rows X ! i) ?I0\<rparr>"
  have res: "get_sample_indices np X (NdArray y) = Inr (?Xo, ?Xi)"
    using assms by (simp add: get_sample_indices_short)
  have sets: "set ?I1 = {i. i < nrows X \<and> y ! i = 1}" "set ?I0 = {i. i < nrows X \<and> y ! i = 0}"
    using assms by (simp_all add: set_nonzero_eq)
  have disj: "set ?I1 \<inter> set ?I0 = {}"
    by (simp add: disjoint_where)
  have total: "nrows ?Xo + nrows ?Xi + length (filter (\<lambda>l. l \<noteq> 0 \<and> l \<noteq> 1) y) = nrows X"
    using count_labels[of y] assms by (simp add: nrows_def length_nonzero_eq)
  show ?thesis
    using res sets disj total distinct_nonzero[of "eq_elementwise y 1"]
      distinct_nonzero[of "eq_elementwise y 0"]
    by (intro exI[of _ ?Xo] exI[of _ ?Xi] exI[of _ ?I1] exI[of _ ?I0]) simp
qed

theorem partition_disjoint_count_witness:
  "length [2, 1, 0 :: int] = nrows X3 \<and>
   get_sample_indices NumPy2 X3 (NdArray [2, 1, 0]) =
     Inr (\<lparr>ncols = 2, rows = [[20, 21]]\<rparr>, \<lparr>ncols = 2, rows = [[30, 31]]\<rparr>) \<and>
   length (filter (\<lambda>l. l \<noteq> 0 \<and> l \<noteq> 1) [2, 1, 0 :: int]) = 1"
  using partition_disjoint_count[of "[2, 1, 0]" X3 NumPy2]
  by (simp add: get_sample_indices_ndarray take_rows_def nonzero_1d_def eq_elementwise_def
        nrows_def X3_def upt_rec)

text \<open>
  With the single label 2 both subsets are empty, and 0 + 0 is not the row count 1.
\<close>

theorem partition_total_counterexample:
  "length [2 :: int] = nrows X1 \<and>
   get_sample_indices NumPy2 X1 (NdArray [2]) =
     Inr (\<lparr>ncols = 2, rows = []\<rparr>, \<lparr>ncols = 2, rows = []\<rparr>) \<and>
   nrows (\<lparr>ncols = 2, rows = []\<rparr> :: int matrix) + nrows (\<lparr>ncols = 2, rows = []\<rparr> :: int matrix)
     \<noteq> nrows X1"
  by (simp add: get_sample_indices_ndarray take_rows_def nonzero_1d_def eq_elementwise_def
        nrows_def X1_def)

text \<open>
  C3, as the code has it. The partitioner does not compare the lengths of X and y. With
  an array y of another length it returns the rows at the positions where y is 1 and
  where y is 0, unless such a position lies beyond the last row of X: then indexing
  raises IndexError.
\<close>

theorem partition_unequal_length:
  assumes "nrows X \<noteq> length y"
  shows "get_sample_indices np X (NdArray y) =
           (if \<forall>i<length y. (y ! i = 1 \<or> y ! i = 0) \<longrightarrow> i < nrows X
            then Inr (\<lparr>ncols = ncols X,
                        rows = map (\<lambda>i. rows X ! i) (nonzero_1d (eq_elementwise y 1))\<rparr>,
                      \<lparr>ncols = ncols X,
                        rows = map (\<lambda>i. rows X ! i) (nonzero_1d (eq_elementwise y 0))\<rparr>)
            else Inl IndexError)"
proof (cases "\<forall>i<length y. (y ! i = 1 \<or> y ! i = 0) \<longrightarrow> i < nrows X")
  case True
  then have "\<forall>i\<in>set (nonzero_1d (eq_elementwise y 1)). i < nrows X"
    and "\<forall>i\<in>set (nonzero_1d (eq_elementwise y 0)). i < nrows X"
    by (simp_all add: set_nonzero_eq)
  then show ?thesis
    using True by (simp add: get_sample_indices_ndarray take_rows_Inr)
next
  case False
  then obtain i where i: "i < length y" "y ! i = 1 \<or> y ! i = 0" "\<not> i < nrows X"
    by blast
  let ?I1 = "nonzero_1d (eq_elementwise y 1)" and ?I0 = "nonzero_1d (eq_elementwise y 0)"
  have bad: "(\<exists>i\<in>set ?I1. \<not> i < nrows X) \<or> (\<exists>i\<in>set ?I0. \<not> i < nrows X)"
    using i by (auto simp: set_nonzero_eq)
  have "get_sample_indices np X (NdArray y) = Inl IndexError"
  proof (cases "\<exists>i\<in>set ?I1. \<not> i < nrows X")
    case True
    then show ?thesis
      by (simp add: get_sample_indices_ndarray take_rows_Inl)
  next
    case False
    then have "\<forall>i\<in>set ?I1. i < nrows X" and "\<exists>i\<in>set ?I0. \<not> i < nrows X"
      using bad by blast+
    then show ?thesis
      by (simp add: get_sample_indices_ndarray take_rows_Inl take_rows_Inr)
  qed
  then show ?thesis
    using False by simp
qed

theorem partition_unequal_length_witness:
  "nrows X1 \<noteq> length [0 :: int, 2, 1] \<and>
   get_sample_indices NumPy2 X1 (NdArray [0, 2, 1]) = Inl IndexError \<and>
   nrows X1 \<noteq> length [0 :: int, 2] \<and>
   get_sample_indices NumPy2 X1 (NdArray [0, 2]) = Inr (\<lparr>ncols = 2, rows = []\<rparr>, X1)"
  using partition_unequal_length[of X1 "[0, 2, 1]" NumPy2]
    partition_unequal_length[of X1 "[0, 2]" NumPy2]
  by (simp add: get_sample_indices_ndarray take_rows_def nonzero_1d_def eq_elementwise_def
        nrows_def X1_def upt_rec)

text \<open>
  Three rows and two labels: the call returns a result.
\<close>

theorem partition_length_mismatch_counterexample:
  "nrows X3 \<noteq> length [1 :: int, 0] \<and>
   get_sample_indices NumPy2 X3 (NdArray [1, 0]) =
     Inr (\<lparr>ncols = 2, rows = [[10, 11]]\<rparr>, \<lparr>ncols = 2, rows = [[20, 21]]\<rparr>)"
  by (simp add: get_sample_indices_ndarray take_rows_def nonzero_1d_def eq_elementwise_def
        nrows_def X3_def upt_rec)

text \<open>
  With a numpy array as label vector, uniform labels give an empty subset that keeps
  the column count: for a 2-column X and an array y of the same length, all zeros give
  outliers of 0 rows and 2 columns and inliers equal to X, all ones give inliers of 0
  rows and outliers equal to X.
\<close>

lemma partition_uniform_labels_ndarray:
  assumes "ncols (X :: 'a matrix) = 2" and "length y = nrows X"
  shows "(set y \<subseteq> {0} \<longrightarrow>
            get_sample_indices np X (NdArray y) = Inr (\<lparr>ncols = 2, rows = []\<rparr>, X) \<and>
            shape (\<lparr>ncols = 2, rows = []\<rparr> :: 'a matrix) = (0, 2)) \<and>
         (set y \<subseteq> {1} \<longrightarrow>
            get_sample_indices np X (NdArray y) = Inr (X, \<lparr>ncols = 2, rows = []\<rparr>) \<and>
            shape (\<lparr>ncols = 2, rows = []\<rparr> :: 'a matrix) = (0, ncols X))"
proof -
  have elt: "y ! i = v" if "set y \<subseteq> {v}" "i < length y" for v i
    using that nth_mem[of i y] by blast
  have all: "nonzero_1d (eq_elementwise y v) = [0..<length y]" if "set y \<subseteq> {v}" for v
    using elt[OF that] by (simp add: nonzero_eq_filter filter_id_conv)
  have none: "nonzero_1d (eq_elementwise y w) = []" if "set y \<subseteq> {v}" "v \<noteq> w" for v w
    using elt[OF that(1)] that(2) by (simp add: nonzero_eq_filter filter_empty_conv)
  have whole: "\<lparr>ncols = 2, rows = map (\<lambda>i. rows X ! i) [0..<length y]\<rparr> = X"
    using assms by (simp add: nrows_def map_nth)
  show ?thesis
    using assms whole
    by (auto simp: get_sample_indices_short all none[of 0 1] none[of 1 0] shape_def nrows_def)
qed

text \<open>
  C9, at a Python list. For the three rows of \<open>X3\<close> and the list \<open>[0, 0, 0]\<close> the
  inliers are not X: on NumPy up to 2.0 both results are arrays of 0 rows and 2 columns,
  from NumPy 2.1 the call raises.
\<close>

theorem partition_uniform_list_labels:
  "ncols X3 = 2 \<and> length [0, 0, 0 :: int] = nrows X3 \<and>
   get_sample_indices NumPy1 X3 (PyList [0, 0, 0]) =
     Inr (\<lparr>ncols = 2, rows = []\<rparr>, \<lparr>ncols = 2, rows = []\<rparr>) \<and>
   \<lparr>ncols = 2, rows = []\<rparr> \<noteq> X3 \<and>
   get_sample_indices NumPy2 X3 (PyList [0, 0, 0]) = Inl NonzeroOn0d"
  by (simp add: get_sample_indices_list nrows_def X3_def)

text \<open>
  With a numpy array as label vector, a label that is neither 0 nor 1 is passed over in
  silence: for X and an array y of equal length and a position i with such a label, the
  call returns and row i is selected for neither subset; when the rows of X are pairwise
  different, the row itself occurs in neither result.
\<close>

lemma partition_other_labels_ndarray:
  assumes "length y = nrows X" and "i < length y" and "y ! i \<noteq> 0" and "y ! i \<noteq> 1"
  shows "\<exists>X_outliers X_inliers I1 I0.
           get_sample_indices np X (NdArray y) = Inr (X_outliers, X_inliers) \<and>
           rows X_outliers = map (\<lambda>j. rows X ! j) I1 \<and>
           rows X_inliers = map (\<lambda>j. rows X ! j) I0 \<and>
           set I1 = {j. j < nrows X \<and> y ! j = 1} \<and>
           set I0 = {j. j < nrows X \<and> y ! j = 0} \<and>
           i \<notin> set I1 \<and> i \<notin> set I0 \<and>
           (distinct (rows X) \<longrightarrow>
              rows X ! i \<notin> set (rows X_outliers) \<and> rows X ! i \<notin> set (rows X_inliers))"
proof -
  let ?I1 = "nonzero_1d (eq_elementwise y 1)" and ?I0 = "nonzero_1d (eq_elementwise y 0)"
  let ?Xo = "\<lparr>ncols = ncols X, rows = map (\<lambda>j. rows X ! j) ?I1\<rparr>"
  let ?Xi = "\<lparr>ncols = ncols X, rows = map (\<lambda>j. rows X ! j) ?I0\<rparr>"
  have res: "get_sample_indices np X (NdArray y) = Inr (?Xo, ?Xi)"
    using assms(1) by (simp add: get_sample_indices_short)
  have sets: "set ?I1 = {j. j < nrows X \<and> y ! j = 1}" "set ?I0 = {j. j < nrows X \<and> y ! j = 0}"
    using assms(1) by (simp_all add: set_nonzero_eq)
  have out: "i \<notin> set ?I1" "i \<notin> set ?I0"
    using assms(3,4) by (simp_all add: set_nonzero_eq)
  have vals: "rows X ! i \<notin> set (rows ?Xo) \<and> rows X ! i \<notin> set (rows ?Xi)" if "distinct (rows X)"
    using that assms out by (auto simp: sets nrows_def nth_eq_iff_index_eq)
  show ?thesis
    using res sets out vals
    by (intro exI[of _ ?Xo] exI[of _ ?Xi] exI[of _ ?I1] exI[of _ ?I0]) simp
qed

text \<open>
  C10, at a Python list. For the three rows of \<open>X3\<close> and the list \<open>[0, 2, -1]\<close> the call
  raises on NumPy from 2.1, where the claim has no error. (On NumPy up to 2.0 it returns
  two empty arrays.)
\<close>

theorem partition_other_list_labels:
  "length [0, 2, -1 :: int] = nrows X3 \<and> [0, 2, -1 :: int] ! 1 \<noteq> 0 \<and>
   [0, 2, -1 :: int] ! 1 \<noteq> 1 \<and>
   get_sample_indices NumPy2 X3 (PyList [0, 2, -1]) = Inl NonzeroOn0d \<and>
   get_sample_indices NumPy1 X3 (PyList [0, 2, -1]) =
     Inr (\<lparr>ncols = 2, rows = []\<rparr>, \<lparr>ncols = 2, rows = []\<rparr>)"
  by (simp add: get_sample_indices_list nrows_def X3_def)

section \<open>Facts about the renderer\<close>

lemma check_consistent_length_pair:
  "check_consistent_length [a, b] = (if a = b then Inr () else Inl (InconsistentLength [a, b]))"
  by (simp add: check_consistent_length_def)

lemma check_X_y_Inr_iff:
  "check_X_y X y = Inr (X', y') \<longleftrightarrow>
     X' = X \<and> column_or_1d y = Inr y' \<and> 1 \<le> nrows X \<and> 1 \<le> ncols X \<and> length y' = nrows X"
  by (auto simp: check_X_y_def check_array_def check_consistent_length_pair
           split: sum.splits if_splits)

lemma get_sample_indices_ncols:
  assumes "get_sample_indices np X y = Inr (Xo, Xi)"
  shows "ncols Xo = ncols X \<and> ncols Xi = ncols X"
  using assms
  by (auto simp: get_sample_indices_def take_rows_def split: sum.splits if_splits)

lemma column_Inr:
  "j < ncols X \<Longrightarrow> column X j = Inr (map (\<lambda>r. r ! j) (rows X))"
  by (simp add: column_def)

lemma add_sub_plot_2col:
  assumes "ncols Xi = 2" and "ncols Xo = 2"
  shows "add_sub_plot Xi Xo t ci co plt =
           (Inr (), plt @ [Axis ''equal'',
              Scatter (map (\<lambda>r. r ! 0) (rows Xi)) (map (\<lambda>r. r ! 1) (rows Xi))
                ''inliers'' ci 40 None,
              Scatter (map (\<lambda>r. r ! 0) (rows Xo)) (map (\<lambda>r. r ! 1) (rows Xo))
                ''outliers'' co 50 (Some ''^''),
              Title t 15, Xticks [], Yticks [], Legend 4 10])"
  using assms by (simp add: add_sub_plot_def column_Inr bind_res_def plt_do_def)

lemma add_sub_plot_append:
  assumes "ncols Xi = 2" and "ncols Xo = 2"
  shows "add_sub_plot Xi Xo t ci co plt = (Inr (), plt @ snd (add_sub_plot Xi Xo t ci co []))"
  using assms by (simp add: add_sub_plot_2col)

lemma run_panels:
  assumes "ncols a1 = 2" "ncols b1 = 2" "ncols a2 = 2" "ncols b2 = 2"
    "ncols a3 = 2" "ncols b3 = 2" "ncols a4 = 2" "ncols b4 = 2"
  shows "run [plt_do (Figure fs), plt_do (Suptitle st 15),
              plt_do (Add_subplot 221), add_sub_plot a1 b1 t1 c1 d1,
              plt_do (Add_subplot 222), add_sub_plot a2 b2 t2 c2 d2,
              plt_do (Add_subplot 223), add_sub_plot a3 b3 t3 c3 d3,
              plt_do (Add_subplot 224), add_sub_plot a4 b4 t4 c4 d4,
              (if sv then plt_do (Savefig f 300) else skip),
              (if sh then plt_do Show else skip)] plt =
         (Inr (), plt @ [Figure fs, Suptitle st 15] @
            [Add_subplot 221] @ snd (add_sub_plot a1 b1 t1 c1 d1 []) @
            [Add_subplot 222] @ snd (add_sub_plot a2 b2 t2 c2 d2 []) @
            [Add_subplot 223] @ snd (add_sub_plot a3 b3 t3 c3 d3 []) @
            [Add_subplot 224] @ snd (add_sub_plot a4 b4 t4 c4 d4 []) @
            (if sv then [Savefig f 300] else []) @ (if sh then [Show] else []))"
  using assms by (simp add: add_sub_plot_2col plt_do_def skip_def)

lemma visualize_checked:
  assumes "check_X_y X_train y_train = Inr (Xtr, ytr)"
    and "check_X_y X_test y_test = Inr (Xte, yte)"
    and "column_or_1d y_test_pred = Inr pte"
    and "column_or_1d y_train_pred = Inr ptr"
  shows "visualize np clf_name X_train y_train X_test y_test y_train_pred y_test_pred sh sv plt =
    (if ncols Xtr \<noteq> 2 \<or> ncols Xte \<noteq> 2 then (Inl (NotTwoD (shape Xtr)), plt)
     else if length ytr \<noteq> length ptr
       then (Inl (InconsistentLength [length ytr, length ptr]), plt)
     else if length yte \<noteq> length pte
       then (Inl (InconsistentLength [length yte, length pte]), plt)
     else (Inr (), plt @ [Figure (12, 10), Suptitle (''Demo of '' @ clf_name) 15] @
       [Add_subplot 221] @
       snd (add_sub_plot (snd (projr (get_sample_indices np Xtr (NdArray ytr))))
              (fst (projr (get_sample_indices np Xtr (NdArray ytr))))
              ''Train set ground truth'' ''blue'' ''orange'' []) @
       [Add_subplot 222] @
       snd (add_sub_plot (snd (projr (get_sample_indices np Xtr (NdArray ptr))))
              (fst (projr (get_sample_indices np Xtr (NdArray ptr))))
              ''Train set prediction'' ''blue'' ''orange'' []) @
       [Add_subplot 223] @
       snd (add_sub_plot (snd (projr (get_sample_indices np Xte (NdArray yte))))
              (fst (projr (get_sample_indices np Xte (NdArray yte))))
              ''Test set ground truth'' ''green'' ''red'' []) @
       [Add_subplot 224] @
       snd (add_sub_plot (snd (projr (get_sample_indices np Xte (NdArray pte))))
              (fst (projr (get_sample_indices np Xte (NdArray pte))))
              ''Test set prediction'' ''green'' ''red'' []) @
       (if sv then [Savefig (clf_name @ ''.png'') 300] else []) @
       (if sh then [Show] else [])))"
proof -
  have len: "length ytr = nrows Xtr" "length yte = nrows Xte"
    using assms(1,2) by (simp_all add: check_X_y_Inr_iff)
  show ?thesis
  proof (cases "ncols Xtr \<noteq> 2 \<or> ncols Xte \<noteq> 2")
    case True
    then show ?thesis
      using assms by (simp add: visualize_def bind_res_def raise_def del: run.simps)
  next
    case two: False
    show ?thesis
    proof (cases "length ytr = length ptr \<and> length yte = length pte")
      case False
      then show ?thesis
        using assms two
        by (auto simp: visualize_def bind_res_def check_consistent_length_pair
              simp del: run.simps)
    next
      case True
      obtain tro tri where p1: "get_sample_indices np Xtr (NdArray ytr) = Inr (tro, tri)"
        using len by (simp add: get_sample_indices_short)
      obtain trop trip where p2: "get_sample_indices np Xtr (NdArray ptr) = Inr (trop, trip)"
        using len True by (simp add: get_sample_indices_short)
      obtain teo tei where p3: "get_sample_indices np Xte (NdArray yte) = Inr (teo, tei)"
        using len by (simp add: get_sample_indices_short)
      obtain teop teip where p4: "get_sample_indices np Xte (NdArray pte) = Inr (teop, teip)"
        using len True by (simp add: get_sample_indices_short)
      have cols: "ncols tro = 2" "ncols tri = 2" "ncols trop = 2" "ncols trip = 2"
        "ncols teo = 2" "ncols tei = 2" "ncols teop = 2" "ncols teip = 2"
        using two get_sample_indices_ncols[OF p1] get_sample_indices_ncols[OF p2]
          get_sample_indices_ncols[OF p3] get_sample_indices_ncols[OF p4]
        by simp_all
      have "visualize np clf_name X_train y_train X_test y_test y_train_pred y_test_pred sh sv plt =
         run [plt_do (Figure (12, 10)),
          plt_do (Suptitle (''Demo of '' @ clf_name) 15),
          plt_do (Add_subplot 221),
          add_sub_plot tri tro ''Train set ground truth'' ''blue'' ''orange'',
          plt_do (Add_subplot 222),
          add_sub_plot trip trop ''Train set prediction'' ''blue'' ''orange'',
          plt_do (Add_subplot 223),
          add_sub_plot tei teo ''Test set ground truth'' ''green'' ''red'',
          plt_do (Add_subplot 224),
          add_sub_plot teip teop ''Test set prediction'' ''green'' ''red'',
          (if sv then plt_do (Savefig (clf_name @ ''.png'') 300) else skip),
          (if sh then plt_do Show else skip)] plt"
        unfolding visualize_def
        using assms two True p1 p2 p3 p4
        by (simp add: bind_res_def check_consistent_length_pair del: run.simps)
      also have "\<dots> = (Inr (), plt @ [Figure (12, 10), Suptitle (''Demo of '' @ clf_name) 15] @
            [Add_subplot 221] @
            snd (add_sub_plot tri tro ''Train set ground truth'' ''blue'' ''orange'' []) @
            [Add_subplot 222] @
            snd (add_sub_plot trip trop ''Train set prediction'' ''blue'' ''orange'' []) @
            [Add_subplot 223] @
            snd (add_sub_plot tei teo ''Test set ground truth'' ''green'' ''red'' []) @
            [Add_subplot 224] @
            snd (add_sub_plot teip teop ''Test set prediction'' ''green'' ''red'' []) @
            (if sv then [Savefig (clf_name @ ''.png'') 300] else []) @
            (if sh then [Show] else []))"
        by (rule run_panels) (fact cols)+
      finally show ?thesis
        using two True p1 p2 p3 p4 by simp
    qed
  qed
qed

lemma visualize_numpy_independent:
  "visualize np clf_name X_train y_train X_test y_test y_train_pred y_test_pred sh sv =
   visualize np' clf_name X_train y_train X_test y_test y_train_pred y_test_pred sh sv"
  unfolding visualize_def get_sample_indices_ndarray by (rule refl)

lemma bind_res_Inl: "bind_res (Inl e) k plt = (Inl e, plt)"
  by (simp add: bind_res_def)

lemma bind_res_Inr: "bind_res (Inr v) k plt = k v plt"
  by (simp add: bind_res_def)

lemma visualize_unchecked:
  assumes "isl (check_X_y X_train y_train) \<or> isl (check_X_y X_test y_test) \<or>
           isl (column_or_1d y_test_pred) \<or> isl (column_or_1d y_train_pred)"
  shows "\<exists>e. visualize np clf_name X_train y_train X_test y_test y_train_pred y_test_pred sh sv plt
           = (Inl e, plt)"
proof (cases "check_X_y X_train y_train")
  case (Inl e)
  then show ?thesis
    by (simp add: visualize_def bind_res_Inl del: run.simps)
next
  case c1: (Inr p1)
  show ?thesis
  proof (cases "check_X_y X_test y_test")
    case (Inl e)
    then show ?thesis
      using c1 by (cases p1) (simp add: visualize_def bind_res_Inl bind_res_Inr del: run.simps)
  next
    case c2: (Inr p2)
    show ?thesis
    proof (cases "column_or_1d y_test_pred")
      case (Inl e)
      then show ?thesis
        using c1 c2
        by (cases p1, cases p2)
           (simp add: visualize_def bind_res_Inl bind_res_Inr del: run.simps)
    next
      case c3: (Inr pte)
      then obtain e where "column_or_1d y_train_pred = Inl e"
        using assms c1 c2 by (auto simp: isl_def)
      then show ?thesis
        using c1 c2 c3
        by (cases p1, cases p2)
           (simp add: visualize_def bind_res_Inl bind_res_Inr del: run.simps)
    qed
  qed
qed

lemma visualize_Inr_checked:
  assumes "visualize np clf_name X_train y_train X_test y_test y_train_pred y_test_pred
             sh sv plt = (Inr u, plt')"
  shows "\<exists>ytr yte ptr pte.
           check_X_y X_train y_train = Inr (X_train, ytr) \<and>
           check_X_y X_test y_test = Inr (X_test, yte) \<and>
           column_or_1d y_test_pred = Inr pte \<and> column_or_1d y_train_pred = Inr ptr"
proof -
  have ok: "\<not> (isl (check_X_y X_train y_train) \<or> isl (check_X_y X_test y_test) \<or>
           isl (column_or_1d y_test_pred) \<or> isl (column_or_1d y_train_pred))"
    using visualize_unchecked[of X_train y_train X_test y_test y_test_pred y_train_pred
        np clf_name sh sv plt] assms
    by auto
  obtain Xtr ytr where c1: "check_X_y X_train y_train = Inr (Xtr, ytr)"
    using ok by (cases "check_X_y X_train y_train") auto
  obtain Xte yte where c2: "check_X_y X_test y_test = Inr (Xte, yte)"
    using ok by (cases "check_X_y X_test y_test") auto
  obtain pte where c3: "column_or_1d y_test_pred = Inr pte"
    using ok by (cases "column_or_1d y_test_pred") auto
  obtain ptr where c4: "column_or_1d y_train_pred = Inr ptr"
    using ok by (cases "column_or_1d y_train_pred") auto
  have "Xtr = X_train" "Xte = X_test"
    using c1 c2 by (simp_all add: check_X_y_Inr_iff)
  then show ?thesis
    using c1 c2 c3 c4 by simp
qed

lemma titles_append: "titles (xs @ ys) = titles xs @ titles ys"
  by (simp add: titles_def)

lemma subplots_append: "subplots (xs @ ys) = subplots xs @ subplots ys"
  by (simp add: subplots_def)

lemma scatter_colors_append: "scatter_colors (xs @ ys) = scatter_colors xs @ scatter_colors ys"
  by (simp add: scatter_colors_def)

lemma saved_files_append: "saved_files (xs @ ys) = saved_files xs @ saved_files ys"
  by (simp add: saved_files_def)

lemma panel_log:
  assumes "ncols Xi = 2" and "ncols Xo = 2"
  shows "fst (add_sub_plot Xi Xo t ci co []) = Inr ()"
    and "titles (snd (add_sub_plot Xi Xo t ci co [])) = [t]"
    and "subplots (snd (add_sub_plot Xi Xo t ci co [])) = []"
    and "scatter_colors (snd (add_sub_plot Xi Xo t ci co [])) =
           [(''inliers'', ci), (''outliers'', co)]"
    and "saved_files (snd (add_sub_plot Xi Xo t ci co [])) = []"
    and "Show \<notin> set (snd (add_sub_plot Xi Xo t ci co []))"
  using assms
  by (simp_all add: add_sub_plot_2col titles_def subplots_def scatter_colors_def
        saved_files_def)

lemma visualize_Inr_log:
  assumes "visualize np clf_name X_train y_train X_test y_test y_train_pred y_test_pred
             show_figure save_figure plt = (Inr (), plt')"
  shows "\<exists>ytr yte ptr pte tro tri trop trip teo tei teop teip.
      column_or_1d y_train = Inr ytr \<and> column_or_1d y_test = Inr yte \<and>
      column_or_1d y_train_pred = Inr ptr \<and> column_or_1d y_test_pred = Inr pte \<and>
      get_sample_indices np X_train (NdArray ytr) = Inr (tro, tri) \<and>
      get_sample_indices np X_train (NdArray ptr) = Inr (trop, trip) \<and>
      get_sample_indices np X_test (NdArray yte) = Inr (teo, tei) \<and>
      get_sample_indices np X_test (NdArray pte) = Inr (teop, teip) \<and>
      ncols tro = 2 \<and> ncols tri = 2 \<and> ncols trop = 2 \<and> ncols trip = 2 \<and>
      ncols teo = 2 \<and> ncols tei = 2 \<and> ncols teop = 2 \<and> ncols teip = 2 \<and>
      plt' = plt @ [Figure (12, 10), Suptitle (''Demo of '' @ clf_name) 15] @
        [Add_subplot 221] @
        snd (add_sub_plot tri tro ''Train set ground truth'' ''blue'' ''orange'' []) @
        [Add_subplot 222] @
        snd (add_sub_plot trip trop ''Train set prediction'' ''blue'' ''orange'' []) @
        [Add_subplot 223] @
        snd (add_sub_plot tei teo ''Test set ground truth'' ''green'' ''red'' []) @
        [Add_subplot 224] @
        snd (add_sub_plot teip teop ''Test set prediction'' ''green'' ''red'' []) @
        (if save_figure then [Savefig (clf_name @ ''.png'') 300] else []) @
        (if show_figure then [Show] else [])"
proof -
  obtain ytr yte ptr pte where
    c1: "check_X_y X_train y_train = Inr (X_train, ytr)" and
    c2: "check_X_y X_test y_test = Inr (X_test, yte)" and
    c3: "column_or_1d y_test_pred = Inr pte" and
    c4: "column_or_1d y_train_pred = Inr ptr"
    using visualize_Inr_checked[OF assms] by blast
  note vc = visualize_checked[OF c1 c2 c3 c4, of np clf_name show_figure save_figure plt]
  have two: "ncols X_train = 2" "ncols X_test = 2"
    using vc assms by (auto split: if_splits)
  have lens: "length ytr = length ptr" "length yte = length pte"
    using vc assms two by (auto split: if_splits)
  have len: "length ytr = nrows X_train" "length yte = nrows X_test"
    and co: "column_or_1d y_train = Inr ytr" "column_or_1d y_test = Inr yte"
    using c1 c2 by (simp_all add: check_X_y_Inr_iff)
  obtain tro tri where p1: "get_sample_indices np X_train (NdArray ytr) = Inr (tro, tri)"
    using len by (simp add: get_sample_indices_short)
  obtain trop trip where p2: "get_sample_indices np X_train (NdArray ptr) = Inr (trop, trip)"
    using len lens by (simp add: get_sample_indices_short)
  obtain teo tei where p3: "get_sample_indices np X_test (NdArray yte) = Inr (teo, tei)"
    using len by (simp add: get_sample_indices_short)
  obtain teop teip where p4: "get_sample_indices np X_test (NdArray pte) = Inr (teop, teip)"
    using len lens by (simp add: get_sample_indices_short)
  have cols: "ncols tro = 2" "ncols tri = 2" "ncols trop = 2" "ncols trip = 2"
    "ncols teo = 2" "ncols tei = 2" "ncols teop = 2" "ncols teip = 2"
    using two get_sample_indices_ncols[OF p1] get_sample_indices_ncols[OF p2]
      get_sample_indices_ncols[OF p3] get_sample_indices_ncols[OF p4]
    by simp_all
  have log: "plt' = plt @ [Figure (12, 10), Suptitle (''Demo of '' @ clf_name) 15] @
        [Add_subplot 221] @
        snd (add_sub_plot tri tro ''Train set ground truth'' ''blue'' ''orange'' []) @
        [Add_subplot 222] @
        snd (add_sub_plot trip trop ''Train set prediction'' ''blue'' ''orange'' []) @
        [Add_subplot 223] @
        snd (add_sub_plot tei teo ''Test set ground truth'' ''green'' ''red'' []) @
        [Add_subplot 224] @
        snd (add_sub_plot teip teop ''Test set prediction'' ''green'' ''red'' []) @
        (if save_figure then [Savefig (clf_name @ ''.png'') 300] else []) @
        (if show_figure then [Show] else [])"
    using vc assms two lens p1 p2 p3 p4 by simp
  show ?thesis
    using co c3 c4 p1 p2 p3 p4 log cols by blast
qed

lemma visualize_example:
  "visualize np clf_name X3 (Vec [0, 1, 0]) X1 (Vec [1]) (Vec [0, 0, 1]) (Vec [0]) sh sv
     ([] :: int plt) =
   (Inr (), snd (visualize np clf_name X3 (Vec [0, 1, 0]) X1 (Vec [1]) (Vec [0, 0, 1]) (Vec [0])
                   sh sv ([] :: int plt)))"
proof -
  have c1: "check_X_y X3 (Vec [0, 1, 0]) = Inr (X3, [0, 1, 0])"
    and c2: "check_X_y X1 (Vec [1]) = Inr (X1, [1])"
    by (simp_all add: check_X_y_Inr_iff column_or_1d_def X3_def X1_def nrows_def)
  have c3: "column_or_1d (Vec [0]) = Inr [0]" and c4: "column_or_1d (Vec [0, 0, 1]) = Inr [0, 0, 1]"
    by (simp_all add: column_or_1d_def)
  have "fst (visualize np clf_name X3 (Vec [0, 1, 0]) X1 (Vec [1]) (Vec [0, 0, 1]) (Vec [0]) sh sv
     ([] :: int plt)) = Inr ()"
    by (simp add: visualize_checked[OF c1 c2 c3 c4]) (simp add: X3_def X1_def)
  then show ?thesis
    by (simp add: prod_eq_iff)
qed

lemma visualize_save_log:
  assumes "visualize np clf_name X_train y_train X_test y_test y_train_pred y_test_pred
             show_figure True plt = (Inr (), plt')"
  shows "\<exists>pre. plt' = plt @ pre @ [Savefig (clf_name @ ''.png'') 300] @
                    (if show_figure then [Show] else []) \<and>
           saved_files pre = [] \<and> Show \<notin> set pre"
proof -
  obtain ytr yte ptr pte tro tri trop trip teo tei teop teip where
    co: "column_or_1d y_train = Inr ytr" "column_or_1d y_test = Inr yte"
      "column_or_1d y_train_pred = Inr ptr" "column_or_1d y_test_pred = Inr pte" and
    p: "get_sample_indices np X_train (NdArray ytr) = Inr (tro, tri)"
      "get_sample_indices np X_train (NdArray ptr) = Inr (trop, trip)"
      "get_sample_indices np X_test (NdArray yte) = Inr (teo, tei)"
      "get_sample_indices np X_test (NdArray pte) = Inr (teop, teip)" and
    cols: "ncols tro = 2" "ncols tri = 2" "ncols trop = 2" "ncols trip = 2"
      "ncols teo = 2" "ncols tei = 2" "ncols teop = 2" "ncols teip = 2" and
    log: "plt' = plt @ [Figure (12, 10), Suptitle (''Demo of '' @ clf_name) 15] @
        [Add_subplot 221] @
        snd (add_sub_plot tri tro ''Train set ground truth'' ''blue'' ''orange'' []) @
        [Add_subplot 222] @
        snd (add_sub_plot trip trop ''Train set prediction'' ''blue'' ''orange'' []) @
        [Add_subplot 223] @
        snd (add_sub_plot tei teo ''Test set ground truth'' ''green'' ''red'' []) @
        [Add_subplot 224] @
        snd (add_sub_plot teip teop ''Test set prediction'' ''green'' ''red'' []) @
        (if True then [Savefig (clf_name @ ''.png'') 300] else []) @
        (if show_figure then [Show] else [])"
    using visualize_Inr_log[OF assms] by blast
  let ?pre = "[Figure (12, 10), Suptitle (''Demo of '' @ clf_name) 15] @
        [Add_subplot 221] @
        snd (add_sub_plot tri tro ''Train set ground truth'' ''blue'' ''orange'' []) @
        [Add_subplot 222] @
        snd (add_sub_plot trip trop ''Train set prediction'' ''blue'' ''orange'' []) @
        [Add_subplot 223] @
        snd (add_sub_plot tei teo ''Test set ground truth'' ''green'' ''red'' []) @
        [Add_subplot 224] @
        snd (add_sub_plot teip teop ''Test set prediction'' ''green'' ''red'' [])"
  have a: "plt' = plt @ ?pre @ [Savefig (clf_name @ ''.png'') 300] @
                    (if show_figure then [Show] else [])"
    using log by simp
  have b: "saved_files ?pre = []"
    unfolding saved_files_append by (simp add: panel_log cols) (simp add: saved_files_def)
  have c: "Show \<notin> set ?pre"
    by (simp add: panel_log cols)
  show ?thesis
    by (rule exI[of _ ?pre]) (intro conjI a b c)
qed

section \<open>Properties of the renderer\<close>

text \<open>
  C4, as the code has it. When X_train or X_test does not have exactly 2 columns the call
  fails before any figure is created: the call log is unchanged. When the library
  validations that come first (\<open>check_X_y\<close> on both pairs, \<open>column_or_1d\<close> on both
  predictions) pass, the error is the ValueError "Input data has to be 2-d for
  visualization", and when X_train is the matrix at fault its message carries the shape
  of X_train.
\<close>

theorem visualize_not_2d:
  assumes "ncols X_train \<noteq> 2 \<or> ncols X_test \<noteq> 2"
  shows "(\<exists>e. visualize np clf_name X_train y_train X_test y_test y_train_pred y_test_pred
               show_figure save_figure plt = (Inl e, plt)) \<and>
         (\<not> isl (check_X_y X_train y_train) \<and> \<not> isl (check_X_y X_test y_test) \<and>
          \<not> isl (column_or_1d y_test_pred) \<and> \<not> isl (column_or_1d y_train_pred) \<longrightarrow>
            (\<exists>s. visualize np clf_name X_train y_train X_test y_test y_train_pred y_test_pred
                   show_figure save_figure plt = (Inl (NotTwoD s), plt)) \<and>
            (ncols X_train \<noteq> 2 \<longrightarrow>
               visualize np clf_name X_train y_train X_test y_test y_train_pred y_test_pred
                 show_figure save_figure plt = (Inl (NotTwoD (shape X_train)), plt)))"
proof -
  let ?V = "visualize np clf_name X_train y_train X_test y_test y_train_pred y_test_pred
              show_figure save_figure plt"
  have checked: "?V = (Inl (NotTwoD (shape X_train)), plt)"
    if ok: "\<not> isl (check_X_y X_train y_train)" "\<not> isl (check_X_y X_test y_test)"
      "\<not> isl (column_or_1d y_test_pred)" "\<not> isl (column_or_1d y_train_pred)"
  proof -
    obtain Xtr ytr where c1: "check_X_y X_train y_train = Inr (Xtr, ytr)"
      using ok(1) by (cases "check_X_y X_train y_train") auto
    obtain Xte yte where c2: "check_X_y X_test y_test = Inr (Xte, yte)"
      using ok(2) by (cases "check_X_y X_test y_test") auto
    obtain pte where c3: "column_or_1d y_test_pred = Inr pte"
      using ok(3) by (cases "column_or_1d y_test_pred") auto
    obtain ptr where c4: "column_or_1d y_train_pred = Inr ptr"
      using ok(4) by (cases "column_or_1d y_train_pred") auto
    have "Xtr = X_train" "Xte = X_test"
      using c1 c2 by (simp_all add: check_X_y_Inr_iff)
    then show ?thesis
      using visualize_checked[OF c1 c2 c3 c4] assms by simp
  qed
  have "\<exists>e. ?V = (Inl e, plt)"
  proof (cases "isl (check_X_y X_train y_train) \<or> isl (check_X_y X_test y_test) \<or>
           isl (column_or_1d y_test_pred) \<or> isl (column_or_1d y_train_pred)")
    case True
    then show ?thesis by (rule visualize_unchecked)
  next
    case False
    then show ?thesis using checked by blast
  qed
  then show ?thesis
    using checked by blast
qed

theorem visualize_not_2d_witness:
  "ncols X1_wide \<noteq> 2 \<and>
   \<not> isl (check_X_y X1_wide (Vec [0])) \<and> \<not> isl (check_X_y X1 (Vec [1])) \<and>
   \<not> isl (column_or_1d (Vec [0])) \<and> \<not> isl (column_or_1d (Vec [0])) \<and>
   visualize NumPy2 ''LOF'' X1_wide (Vec [0]) X1 (Vec [1]) (Vec [0]) (Vec [0]) True True [] =
     (Inl (NotTwoD (1, 3)), [])"
  using visualize_not_2d[of X1_wide X1 NumPy2 "''LOF''" "Vec [0]" "Vec [1]" "Vec [0]" "Vec [0]"
      True True "[]"]
  by (simp add: check_X_y_def check_array_def column_or_1d_def check_consistent_length_def
        X1_def X1_wide_def nrows_def shape_def)

text \<open>
  A matrix of 3 columns with a label vector of the wrong length fails in \<open>check_X_y\<close>,
  with the length error. And when only X_test has 3 columns the message carries the
  shape of X_train, \<open>(1, 2)\<close>, not the shape \<open>(1, 3)\<close> of X_test.
\<close>

theorem visualize_shape_error_counterexample:
  "ncols X1_wide \<noteq> 2 \<and>
   visualize NumPy2 ''LOF'' X1_wide (Vec [0, 1]) X1 (Vec [0]) (Vec [0]) (Vec [0]) True False
     ([] :: int plt) = (Inl (InconsistentLength [1, 2]), []) \<and>
   visualize NumPy2 ''LOF'' X1 (Vec [0]) X1_wide (Vec [0]) (Vec [0]) (Vec [0]) True False
     ([] :: int plt) = (Inl (NotTwoD (1, 2)), []) \<and>
   shape X1_wide = (1, 3)"
  by (simp add: visualize_def bind_res_def raise_def check_X_y_def check_array_def
        column_or_1d_def check_consistent_length_def X1_def X1_wide_def nrows_def shape_def
        del: run.simps)

text \<open>
  C5, as the code has it. When the label vector of the training set differs in length
  from the row count of X_train, or a label vector differs in length from its prediction
  vector, the call fails before anything is drawn: the call log is unchanged. The error
  is the length error of the first check that fails in source order: for labels against
  X_train when X_train has at least one row and one column; for labels against
  predictions when both \<open>check_X_y\<close> pass and both matrices have 2 columns (the training
  pair is checked first).
\<close>

theorem visualize_length_mismatch:
  assumes "column_or_1d y_train = Inr ytr" and "column_or_1d y_test = Inr yte"
    and "column_or_1d y_train_pred = Inr ptr" and "column_or_1d y_test_pred = Inr pte"
    and "length ytr \<noteq> nrows X_train \<or> length ytr \<noteq> length ptr \<or> length yte \<noteq> length pte"
  shows "(\<exists>e. visualize np clf_name X_train y_train X_test y_test y_train_pred y_test_pred
               show_figure save_figure plt = (Inl e, plt)) \<and>
         (1 \<le> nrows X_train \<and> 1 \<le> ncols X_train \<and> length ytr \<noteq> nrows X_train \<longrightarrow>
            visualize np clf_name X_train y_train X_test y_test y_train_pred y_test_pred
              show_figure save_figure plt
              = (Inl (InconsistentLength [nrows X_train, length ytr]), plt)) \<and>
         (\<not> isl (check_X_y X_train y_train) \<and> \<not> isl (check_X_y X_test y_test) \<and>
          ncols X_train = 2 \<and> ncols X_test = 2 \<longrightarrow>
            (length ytr \<noteq> length ptr \<longrightarrow>
               visualize np clf_name X_train y_train X_test y_test y_train_pred y_test_pred
                 show_figure save_figure plt
                 = (Inl (InconsistentLength [length ytr, length ptr]), plt)) \<and>
            (length ytr = length ptr \<and> length yte \<noteq> length pte \<longrightarrow>
               visualize np clf_name X_train y_train X_test y_test y_train_pred y_test_pred
                 show_figure save_figure plt
                 = (Inl (InconsistentLength [length yte, length pte]), plt)))"
proof -
  let ?V = "visualize np clf_name X_train y_train X_test y_test y_train_pred y_test_pred
              show_figure save_figure plt"
  have first: "?V = (Inl (InconsistentLength [nrows X_train, length ytr]), plt)"
    if "1 \<le> nrows X_train" "1 \<le> ncols X_train" "length ytr \<noteq> nrows X_train"
  proof -
    have "check_X_y X_train y_train = Inl (InconsistentLength [nrows X_train, length ytr])"
      using that assms(1)
      by (simp add: check_X_y_def check_array_def check_consistent_length_pair)
    then show ?thesis
      by (simp add: visualize_def bind_res_Inl del: run.simps)
  qed
  have checked: "?V =
      (if length ytr \<noteq> length ptr
       then (Inl (InconsistentLength [length ytr, length ptr]), plt)
       else if length yte \<noteq> length pte
       then (Inl (InconsistentLength [length yte, length pte]), plt)
       else ?V)" and len: "length ytr = nrows X_train"
    if ok: "\<not> isl (check_X_y X_train y_train)" "\<not> isl (check_X_y X_test y_test)"
      and two: "ncols X_train = 2 \<and> ncols X_test = 2"
  proof -
    obtain Xtr ytr' where c1: "check_X_y X_train y_train = Inr (Xtr, ytr')"
      using ok(1) by (cases "check_X_y X_train y_train") auto
    obtain Xte yte' where c2: "check_X_y X_test y_test = Inr (Xte, yte')"
      using ok(2) by (cases "check_X_y X_test y_test") auto
    have eqs: "Xtr = X_train" "Xte = X_test" "ytr' = ytr" "yte' = yte"
      using c1 c2 assms(1,2) by (simp_all add: check_X_y_Inr_iff)
    show "length ytr = nrows X_train"
      using c1 assms(1) by (simp add: check_X_y_Inr_iff)
    show "?V =
      (if length ytr \<noteq> length ptr
       then (Inl (InconsistentLength [length ytr, length ptr]), plt)
       else if length yte \<noteq> length pte
       then (Inl (InconsistentLength [length yte, length pte]), plt)
       else ?V)"
      using visualize_checked[OF c1 c2 assms(4) assms(3),
          of np clf_name show_figure save_figure plt] two eqs
      by simp
  qed
  have second: "?V = (Inl (InconsistentLength [length ytr, length ptr]), plt)"
    if "\<not> isl (check_X_y X_train y_train)" "\<not> isl (check_X_y X_test y_test)"
      "ncols X_train = 2 \<and> ncols X_test = 2" "length ytr \<noteq> length ptr"
    using checked[OF that(1,2,3)] that(4) by simp
  have third: "?V = (Inl (InconsistentLength [length yte, length pte]), plt)"
    if "\<not> isl (check_X_y X_train y_train)" "\<not> isl (check_X_y X_test y_test)"
      "ncols X_train = 2 \<and> ncols X_test = 2" "length ytr = length ptr"
      "length yte \<noteq> length pte"
    using checked[OF that(1,2,3)] that(4,5) by simp
  have fails: "\<exists>e. ?V = (Inl e, plt)"
  proof (cases "isl (check_X_y X_train y_train) \<or> isl (check_X_y X_test y_test)")
    case True
    then show ?thesis
      by (intro visualize_unchecked) blast
  next
    case ok: False
    show ?thesis
    proof (cases "ncols X_train = 2 \<and> ncols X_test = 2")
      case True
      have "length ytr = nrows X_train"
        using len ok True by blast
      then have "length ytr \<noteq> length ptr \<or> (length ytr = length ptr \<and> length yte \<noteq> length pte)"
        using assms(5) by blast
      then show ?thesis
        using second third ok True by blast
    next
      case False
      obtain Xtr ytr' where c1: "check_X_y X_train y_train = Inr (Xtr, ytr')"
        using ok by (cases "check_X_y X_train y_train") auto
      obtain Xte yte' where c2: "check_X_y X_test y_test = Inr (Xte, yte')"
        using ok by (cases "check_X_y X_test y_test") auto
      have "Xtr = X_train" "Xte = X_test"
        using c1 c2 by (simp_all add: check_X_y_Inr_iff)
      then show ?thesis
        using visualize_checked[OF c1 c2 assms(4) assms(3),
            of np clf_name show_figure save_figure plt] False
        by auto
    qed
  qed
  show ?thesis
    using fails first second third by blast
qed

theorem visualize_length_mismatch_witness:
  "column_or_1d (Vec [0, 1]) = Inr [0, 1] \<and> column_or_1d (Vec [0]) = Inr [0] \<and>
   column_or_1d (Vec [0, 1, 0]) = Inr [0, 1, 0] \<and>
   length [0, 1 :: int] \<noteq> nrows X3 \<and> 1 \<le> nrows X3 \<and> 1 \<le> ncols X3 \<and>
   visualize NumPy2 ''LOF'' X3 (Vec [0, 1]) X1 (Vec [0]) (Vec [0, 1, 0]) (Vec [0]) True False
     ([] :: int plt) = (Inl (InconsistentLength [3, 2]), []) \<and>
   \<not> isl (check_X_y X1 (Vec [0])) \<and> ncols X1 = 2 \<and> length [0 :: int] \<noteq> length [0, 1 :: int] \<and>
   visualize NumPy2 ''LOF'' X1 (Vec [0]) X1 (Vec [0]) (Vec [0, 1]) (Vec [0]) True False
     ([] :: int plt) = (Inl (InconsistentLength [1, 2]), [])"
  using visualize_length_mismatch[where y_train = "Vec [0, 1]" and ytr = "[0, 1]"
      and y_test = "Vec [0]" and yte = "[0]" and y_train_pred = "Vec [0, 1, 0]"
      and ptr = "[0, 1, 0]" and y_test_pred = "Vec [0]" and pte = "[0]"
      and X_train = X3 and X_test = X1 and np = NumPy2 and clf_name = "''LOF''"
      and show_figure = True and save_figure = False and plt = "[] :: int plt"]
    visualize_length_mismatch[where y_train = "Vec [0]" and ytr = "[0]"
      and y_test = "Vec [0]" and yte = "[0]" and y_train_pred = "Vec [0, 1]"
      and ptr = "[0, 1]" and y_test_pred = "Vec [0]" and pte = "[0]"
      and X_train = X1 and X_test = X1 and np = NumPy2 and clf_name = "''LOF''"
      and show_figure = True and save_figure = False and plt = "[] :: int plt"]
  by (simp add: check_X_y_def check_array_def column_or_1d_def check_consistent_length_def
        X1_def X3_def nrows_def)

text \<open>
  The shape check of line 133 comes before the label and prediction vectors are
  compared: with a 3-column X_train and a prediction vector one entry too long, the
  error is the shape error.
\<close>

theorem visualize_length_error_counterexample:
  "length [0 :: int] \<noteq> length [0 :: int, 1] \<and>
   visualize NumPy2 ''LOF'' X1_wide (Vec [0]) X1 (Vec [0]) (Vec [0, 1]) (Vec [0]) True False
     ([] :: int plt) = (Inl (NotTwoD (1, 3)), [])"
  by (simp add: visualize_def bind_res_def raise_def check_X_y_def check_array_def
        column_or_1d_def check_consistent_length_def X1_def X1_wide_def nrows_def shape_def
        del: run.simps)

text \<open>
  C6. A call that succeeds has appended to the call log: the figure and its title, then
  four times a subplot position followed by the calls of one \<open>_add_sub_plot\<close>, in the
  order train ground truth, train prediction, test ground truth, test prediction, each
  on the partition of its data; then the optional save and show. The four titles are as
  listed, the positions are 221 to 224, and the inlier and outlier series are blue and
  orange in the two train panels, green and red in the two test panels.
\<close>

theorem visualize_four_panels:
  assumes "visualize np clf_name X_train y_train X_test y_test y_train_pred y_test_pred
             show_figure save_figure plt = (Inr (), plt')"
  shows "\<exists>ytr yte ptr pte tro tri trop trip teo tei teop teip new.
      column_or_1d y_train = Inr ytr \<and> column_or_1d y_test = Inr yte \<and>
      column_or_1d y_train_pred = Inr ptr \<and> column_or_1d y_test_pred = Inr pte \<and>
      get_sample_indices np X_train (NdArray ytr) = Inr (tro, tri) \<and>
      get_sample_indices np X_train (NdArray ptr) = Inr (trop, trip) \<and>
      get_sample_indices np X_test (NdArray yte) = Inr (teo, tei) \<and>
      get_sample_indices np X_test (NdArray pte) = Inr (teop, teip) \<and>
      plt' = plt @ new \<and>
      new = [Figure (12, 10), Suptitle (''Demo of '' @ clf_name) 15] @
        [Add_subplot 221] @
        snd (add_sub_plot tri tro ''Train set ground truth'' ''blue'' ''orange'' []) @
        [Add_subplot 222] @
        snd (add_sub_plot trip trop ''Train set prediction'' ''blue'' ''orange'' []) @
        [Add_subplot 223] @
        snd (add_sub_plot tei teo ''Test set ground truth'' ''green'' ''red'' []) @
        [Add_subplot 224] @
        snd (add_sub_plot teip teop ''Test set prediction'' ''green'' ''red'' []) @
        (if save_figure then [Savefig (clf_name @ ''.png'') 300] else []) @
        (if show_figure then [Show] else []) \<and>
      fst (add_sub_plot tri tro ''Train set ground truth'' ''blue'' ''orange'' []) = Inr () \<and>
      fst (add_sub_plot trip trop ''Train set prediction'' ''blue'' ''orange'' []) = Inr () \<and>
      fst (add_sub_plot tei teo ''Test set ground truth'' ''green'' ''red'' []) = Inr () \<and>
      fst (add_sub_plot teip teop ''Test set prediction'' ''green'' ''red'' []) = Inr () \<and>
      titles new = [''Train set ground truth'', ''Train set prediction'',
                    ''Test set ground truth'', ''Test set prediction''] \<and>
      subplots new = [221, 222, 223, 224] \<and>
      scatter_colors new =
        [(''inliers'', ''blue''), (''outliers'', ''orange''),
         (''inliers'', ''blue''), (''outliers'', ''orange''),
         (''inliers'', ''green''), (''outliers'', ''red''),
         (''inliers'', ''green''), (''outliers'', ''red'')]"
proof -
  obtain ytr yte ptr pte tro tri trop trip teo tei teop teip where
    co: "column_or_1d y_train = Inr ytr" "column_or_1d y_test = Inr yte"
      "column_or_1d y_train_pred = Inr ptr" "column_or_1d y_test_pred = Inr pte" and
    p: "get_sample_indices np X_train (NdArray ytr) = Inr (tro, tri)"
      "get_sample_indices np X_train (NdArray ptr) = Inr (trop, trip)"
      "get_sample_indices np X_test (NdArray yte) = Inr (teo, tei)"
      "get_sample_indices np X_test (NdArray pte) = Inr (teop, teip)" and
    cols: "ncols tro = 2" "ncols tri = 2" "ncols trop = 2" "ncols trip = 2"
      "ncols teo = 2" "ncols tei = 2" "ncols teop = 2" "ncols teip = 2" and
    log: "plt' = plt @ [Figure (12, 10), Suptitle (''Demo of '' @ clf_name) 15] @
        [Add_subplot 221] @
        snd (add_sub_plot tri tro ''Train set ground truth'' ''blue'' ''orange'' []) @
        [Add_subplot 222] @
        snd (add_sub_plot trip trop ''Train set prediction'' ''blue'' ''orange'' []) @
        [Add_subplot 223] @
        snd (add_sub_plot tei teo ''Test set ground truth'' ''green'' ''red'' []) @
        [Add_subplot 224] @
        snd (add_sub_plot teip teop ''Test set prediction'' ''green'' ''red'' []) @
        (if save_figure then [Savefig (clf_name @ ''.png'') 300] else []) @
        (if show_figure then [Show] else [])"
    using visualize_Inr_log[OF assms] by blast
  let ?new = "[Figure (12, 10), Suptitle (''Demo of '' @ clf_name) 15] @
        [Add_subplot 221] @
        snd (add_sub_plot tri tro ''Train set ground truth'' ''blue'' ''orange'' []) @
        [Add_subplot 222] @
        snd (add_sub_plot trip trop ''Train set prediction'' ''blue'' ''orange'' []) @
        [Add_subplot 223] @
        snd (add_sub_plot tei teo ''Test set ground truth'' ''green'' ''red'' []) @
        [Add_subplot 224] @
        snd (add_sub_plot teip teop ''Test set prediction'' ''green'' ''red'' []) @
        (if save_figure then [Savefig (clf_name @ ''.png'') 300] else []) @
        (if show_figure then [Show] else [])"
  have t: "titles ?new = [''Train set ground truth'', ''Train set prediction'',
                    ''Test set ground truth'', ''Test set prediction'']"
    unfolding titles_append by (simp add: panel_log cols) (simp add: titles_def)
  have s: "subplots ?new = [221, 222, 223, 224]"
    unfolding subplots_append by (simp add: panel_log cols) (simp add: subplots_def)
  have c: "scatter_colors ?new =
        [(''inliers'', ''blue''), (''outliers'', ''orange''),
         (''inliers'', ''blue''), (''outliers'', ''orange''),
         (''inliers'', ''green''), (''outliers'', ''red''),
         (''inliers'', ''green''), (''outliers'', ''red'')]"
    unfolding scatter_colors_append
    by (simp add: panel_log cols) (simp add: scatter_colors_def)
  have f: "fst (add_sub_plot tri tro ''Train set ground truth'' ''blue'' ''orange'' []) = Inr ()"
    "fst (add_sub_plot trip trop ''Train set prediction'' ''blue'' ''orange'' []) = Inr ()"
    "fst (add_sub_plot tei teo ''Test set ground truth'' ''green'' ''red'' []) = Inr ()"
    "fst (add_sub_plot teip teop ''Test set prediction'' ''green'' ''red'' []) = Inr ()"
    by (simp_all add: panel_log cols)
  show ?thesis
    using co p log t s c f by blast
qed

theorem visualize_four_panels_witness:
  "fst (visualize NumPy2 ''LOF'' X3 (Vec [0, 1, 0]) X1 (Vec [1]) (Vec [0, 0, 1]) (Vec [0]) True False
          ([] :: int plt)) = Inr () \<and>
   titles (snd (visualize NumPy2 ''LOF'' X3 (Vec [0, 1, 0]) X1 (Vec [1]) (Vec [0, 0, 1]) (Vec [0])
                  True False ([] :: int plt))) =
     [''Train set ground truth'', ''Train set prediction'',
      ''Test set ground truth'', ''Test set prediction''] \<and>
   subplots (snd (visualize NumPy2 ''LOF'' X3 (Vec [0, 1, 0]) X1 (Vec [1]) (Vec [0, 0, 1]) (Vec [0])
                    True False ([] :: int plt))) = [221, 222, 223, 224]"
  using visualize_four_panels[OF visualize_example[of NumPy2 "''LOF''" True False]]
    visualize_example[of NumPy2 "''LOF''" True False]
  by (metis append_Nil fst_conv)

text \<open>
  C7, as the code has it. A call that succeeds with \<open>save_figure\<close> set makes exactly one
  \<open>savefig\<close> call, with the path \<open>clf_name\<close> followed by \<open>.png\<close> and dpi 300; it comes
  after all drawing and before \<open>show\<close>, which is called only when \<open>show_figure\<close> is set.
  The path is the detector name as given: the file is an entry of the current working
  directory when the name has no path separator.
\<close>

theorem visualize_saves_once:
  assumes "visualize np clf_name X_train y_train X_test y_test y_train_pred y_test_pred
             show_figure True plt = (Inr (), plt')"
  shows "\<exists>pre. plt' = plt @ pre @ [Savefig (clf_name @ ''.png'') 300] @
                    (if show_figure then [Show] else []) \<and>
           saved_files pre = [] \<and> Show \<notin> set pre \<and>
           saved_files (pre @ [Savefig (clf_name @ ''.png'') 300] @
                        (if show_figure then [Show] else []))
             = [(clf_name @ ''.png'', 300)] \<and>
           (\<not> show_figure \<longrightarrow> Show \<notin> set (pre @ [Savefig (clf_name @ ''.png'') 300])) \<and>
           (CHR ''/'' \<notin> set clf_name \<longrightarrow> in_working_directory (clf_name @ ''.png''))"
proof -
  obtain pre where a: "plt' = plt @ pre @ [Savefig (clf_name @ ''.png'') 300] @
                    (if show_figure then [Show] else [])"
    and b: "saved_files pre = []" and c: "Show \<notin> set pre"
    using visualize_save_log[OF assms] by blast
  have d: "saved_files (pre @ [Savefig (clf_name @ ''.png'') 300] @
                        (if show_figure then [Show] else []))
             = [(clf_name @ ''.png'', 300)]"
    using b by (simp add: saved_files_append) (simp add: saved_files_def)
  have e: "Show \<notin> set (pre @ [Savefig (clf_name @ ''.png'') 300])"
    using c by simp
  have f: "in_working_directory (clf_name @ ''.png'')" if "CHR ''/'' \<notin> set clf_name"
    using that by (simp add: in_working_directory_def)
  show ?thesis
    by (rule exI[of _ pre]) (intro conjI impI a b c d e f, assumption)
qed

theorem visualize_saves_once_witness:
  "fst (visualize NumPy2 ''LOF'' X3 (Vec [0, 1, 0]) X1 (Vec [1]) (Vec [0, 0, 1]) (Vec [0]) False True
          ([] :: int plt)) = Inr () \<and>
   saved_files (snd (visualize NumPy2 ''LOF'' X3 (Vec [0, 1, 0]) X1 (Vec [1]) (Vec [0, 0, 1]) (Vec [0])
                  False True ([] :: int plt))) = [(''LOF.png'', 300)] \<and>
   Show \<notin> set (snd (visualize NumPy2 ''LOF'' X3 (Vec [0, 1, 0]) X1 (Vec [1]) (Vec [0, 0, 1])
                  (Vec [0]) False True ([] :: int plt))) \<and>
   CHR ''/'' \<notin> set ''LOF'' \<and> in_working_directory ''LOF.png''"
proof -
  let ?V = "visualize NumPy2 ''LOF'' X3 (Vec [0, 1, 0]) X1 (Vec [1]) (Vec [0, 0, 1]) (Vec [0])
              False True ([] :: int plt)"
  have run: "?V = (Inr (), snd ?V)"
    by (rule visualize_example)
  have slash: "CHR ''/'' \<notin> set ''LOF''"
    by simp
  obtain pre where pre: "snd ?V = [] @ pre @ [Savefig (''LOF'' @ ''.png'') 300] @
                    (if False then [Show] else [])"
    and sv: "saved_files (pre @ [Savefig (''LOF'' @ ''.png'') 300] @
               (if False then [Show] else [])) = [(''LOF'' @ ''.png'', 300)]"
    and sh: "\<not> False \<longrightarrow> Show \<notin> set (pre @ [Savefig (''LOF'' @ ''.png'') 300])"
    and wd: "CHR ''/'' \<notin> set ''LOF'' \<longrightarrow> in_working_directory (''LOF'' @ ''.png'')"
    using visualize_saves_once[OF run] by blast
  have "fst ?V = Inr ()"
    using run by (metis fst_conv)
  moreover have "saved_files (snd ?V) = [(''LOF.png'', 300)]"
    using sv by (simp add: pre)
  moreover have "Show \<notin> set (snd ?V)"
    using sh by (simp add: pre)
  moreover have "in_working_directory ''LOF.png''"
    using wd slash by simp
  ultimately show ?thesis
    using slash by blast
qed

text \<open>
  For the detector name \<open>/tmp/LOF\<close> the file written is \<open>/tmp/LOF.png\<close>, which is not in
  the current working directory.
\<close>

theorem visualize_save_path_counterexample:
  "fst (visualize NumPy2 ''/tmp/LOF'' X3 (Vec [0, 1, 0]) X1 (Vec [1]) (Vec [0, 0, 1]) (Vec [0])
          False True ([] :: int plt)) = Inr () \<and>
   saved_files (snd (visualize NumPy2 ''/tmp/LOF'' X3 (Vec [0, 1, 0]) X1 (Vec [1]) (Vec [0, 0, 1])
                  (Vec [0]) False True ([] :: int plt))) = [(''/tmp/LOF.png'', 300)] \<and>
   \<not> in_working_directory ''/tmp/LOF.png''"
proof -
  let ?V = "visualize NumPy2 ''/tmp/LOF'' X3 (Vec [0, 1, 0]) X1 (Vec [1]) (Vec [0, 0, 1]) (Vec [0])
              False True ([] :: int plt)"
  have run: "?V = (Inr (), snd ?V)"
    by (rule visualize_example)
  obtain pre where pre: "snd ?V = [] @ pre @ [Savefig (''/tmp/LOF'' @ ''.png'') 300] @
                    (if False then [Show] else [])"
    and b: "saved_files pre = []"
    using visualize_save_log[OF run] by blast
  have "saved_files (snd ?V) = [(''/tmp/LOF.png'', 300)]"
    using b by (simp add: pre saved_files_append) (simp add: saved_files_def)
  moreover have "fst ?V = Inr ()"
    using run by (metis fst_conv)
  moreover have "\<not> in_working_directory ''/tmp/LOF.png''"
    by (simp add: in_working_directory_def)
  ultimately show ?thesis
    by blast
qed

section \<open>The partitioner leaves its arguments alone\<close>

lemma heap_select_refines:
  assumes "X < length (matrices h)"
    and "heap_select np X y v h = (r, h')"
  shows "vectors h' = vectors h \<and>
         (case r of
            Inl e \<Rightarrow>
              matrices h' = matrices h \<and>
              (case np_where np (eq_scalar (vectors h ! y) v) of
                 Inl e' \<Rightarrow> e' = e
               | Inr idx \<Rightarrow> take_rows (matrices h ! X) idx = Inl e)
          | Inr out \<Rightarrow>
              out = length (matrices h) \<and>
              (\<exists>idx M. np_where np (eq_scalar (vectors h ! y) v) = Inr idx \<and>
                 take_rows (matrices h ! X) idx = Inr M \<and>
                 matrices h' = matrices h @ [M]))"
  using assms
  by (auto simp: heap_select_def heap_eq_scalar_def heap_np_where_def heap_take_rows_def
        nth_append split: sum.splits)

lemma get_sample_indices_heap_refines:
  assumes "X < length (matrices h)"
    and "get_sample_indices_heap np X y h = (r, h')"
  shows "vectors h' = vectors h \<and>
         (\<exists>new. matrices h' = matrices h @ new) \<and>
         (case r of
            Inl e \<Rightarrow> get_sample_indices np (matrices h ! X) (vectors h ! y) = Inl e
          | Inr (out, inl) \<Rightarrow>
              get_sample_indices np (matrices h ! X) (vectors h ! y) =
                Inr (matrices h' ! out, matrices h' ! inl) \<and>
              length (matrices h) \<le> out \<and> length (matrices h) \<le> inl \<and> out \<noteq> inl \<and>
              out < length (matrices h') \<and> inl < length (matrices h'))"
proof -
  obtain r1 ha where s1: "heap_select np X y 1 h = (r1, ha)"
    by (cases "heap_select np X y 1 h")
  note f1 = heap_select_refines[OF assms(1) s1]
  show ?thesis
  proof (cases r1)
    case (Inl e)
    then have "r = Inl e" "h' = ha"
      using assms(2) s1 by (simp_all add: get_sample_indices_heap_def)
    then show ?thesis
      using f1 Inl by (auto simp: get_sample_indices_def split: sum.splits)
  next
    case (Inr out)
    then obtain idx1 M1 where o:
      "out = length (matrices h)" "np_where np (eq_scalar (vectors h ! y) 1) = Inr idx1"
      "take_rows (matrices h ! X) idx1 = Inr M1" "matrices ha = matrices h @ [M1]"
      and va: "vectors ha = vectors h"
      using f1 by auto
    have Xa: "X < length (matrices ha)" and same: "matrices ha ! X = matrices h ! X"
      using assms(1) o(4) by (simp_all add: nth_append)
    obtain r2 hb where s2: "heap_select np X y 0 ha = (r2, hb)"
      by (cases "heap_select np X y 0 ha")
    note f2 = heap_select_refines[OF Xa s2]
    have res: "r = (case r2 of Inl e \<Rightarrow> Inl e | Inr inl \<Rightarrow> Inr (out, inl))" "h' = hb"
      using assms(2) s1 s2 Inr
      by (simp_all add: get_sample_indices_heap_def split: sum.splits)
    show ?thesis
    proof (cases r2)
      case (Inl e)
      then show ?thesis
        using f2 res o va same
        by (auto simp: get_sample_indices_def split: sum.splits)
    next
      case inl: (Inr inl)
      then obtain idx0 M0 where i:
        "inl = length (matrices ha)" "np_where np (eq_scalar (vectors ha ! y) 0) = Inr idx0"
        "take_rows (matrices ha ! X) idx0 = Inr M0" "matrices hb = matrices ha @ [M0]"
        and vb: "vectors hb = vectors ha"
        using f2 by auto
      show ?thesis
        using res inl o i va vb same
        by (simp add: get_sample_indices_def nth_append)
    qed
  qed
qed

lemma heap_example_first: "get_sample_indices_heap NumPy2 0 0 h0 = (Inr (1, 2), h1)"
  by code_simp

lemma heap_example_second: "get_sample_indices_heap NumPy2 0 0 h1 = (Inr (3, 4), h2)"
  by code_simp

text \<open>
  C8. On the heap, a call of the partitioner with references to a sample array and a
  label vector (array or list) changes neither: both hold the same values afterwards, every array that
  existed before is unchanged, and the results are new arrays. A second call with the
  same references returns arrays with the same contents as the first (or the same
  error), and the results of the first call are still what they were. The contents are
  those the function on values computes.
\<close>

theorem partition_heap_pure:
  assumes "X < length (matrices h)" and "y < length (vectors h)"
    and "get_sample_indices_heap np X y h = (r, h')"
    and "get_sample_indices_heap np X y h' = (r2, h2)"
  shows "matrices h' ! X = matrices h ! X \<and> vectors h' ! y = vectors h ! y \<and>
         matrices h2 ! X = matrices h ! X \<and> vectors h2 ! y = vectors h ! y \<and>
         take (length (matrices h)) (matrices h2) = matrices h \<and> vectors h2 = vectors h \<and>
         (case r of
            Inl e \<Rightarrow> r2 = Inl e \<and> get_sample_indices np (matrices h ! X) (vectors h ! y) = Inl e
          | Inr (out, inl) \<Rightarrow>
              (\<exists>out2 inl2. r2 = Inr (out2, inl2) \<and>
                 matrices h2 ! out2 = matrices h' ! out \<and>
                 matrices h2 ! inl2 = matrices h' ! inl \<and>
                 matrices h2 ! out = matrices h' ! out \<and>
                 matrices h2 ! inl = matrices h' ! inl) \<and>
              get_sample_indices np (matrices h ! X) (vectors h ! y) =
                Inr (matrices h' ! out, matrices h' ! inl))"
proof -
  note r1 = get_sample_indices_heap_refines[OF assms(1) assms(3)]
  obtain new where new: "matrices h' = matrices h @ new" and v1: "vectors h' = vectors h"
    using r1 by blast
  have X': "X < length (matrices h')" and same: "matrices h' ! X = matrices h ! X"
    using assms(1) new by (simp_all add: nth_append)
  note r2 = get_sample_indices_heap_refines[OF X' assms(4)]
  obtain new2 where new2: "matrices h2 = matrices h' @ new2" and v2: "vectors h2 = vectors h'"
    using r2 by blast
  have same2: "matrices h2 ! X = matrices h ! X"
    using X' same new2 by (simp add: nth_append)
  have pre: "take (length (matrices h)) (matrices h2) = matrices h"
    using new new2 by simp
  show ?thesis
  proof (cases r)
    case (Inl e)
    then have "get_sample_indices np (matrices h ! X) (vectors h ! y) = Inl e"
      using r1 by simp
    then have "r2 = Inl e"
      using r2 same v1 by (cases r2) auto
    then show ?thesis
      using Inl r1 same same2 v1 v2 pre by simp
  next
    case (Inr p)
    obtain out inl where p: "p = (out, inl)"
      by (cases p)
    have pure: "get_sample_indices np (matrices h ! X) (vectors h ! y) =
                  Inr (matrices h' ! out, matrices h' ! inl)"
      using r1 Inr p by simp
    obtain out2 inl2 where r2eq: "r2 = Inr (out2, inl2)"
      using r2 pure same v1 by (cases r2) auto
    have eq2: "matrices h2 ! out2 = matrices h' ! out" "matrices h2 ! inl2 = matrices h' ! inl"
      using r2 r2eq pure same v1 by simp_all
    have "out < length (matrices h')" "inl < length (matrices h')"
      using r1 Inr p by simp_all
    then have keep: "matrices h2 ! out = matrices h' ! out" "matrices h2 ! inl = matrices h' ! inl"
      using new2 by (simp_all add: nth_append)
    show ?thesis
      using Inr p pure r2eq eq2 keep same same2 v1 v2 pre by simp
  qed
qed

theorem partition_heap_pure_witness:
  "(0 :: nat) < length (matrices h0) \<and> (0 :: nat) < length (vectors h0) \<and>
   get_sample_indices_heap NumPy2 0 0 h0 = (Inr (1, 2), h1) \<and>
   get_sample_indices_heap NumPy2 0 0 h1 = (Inr (3, 4), h2) \<and>
   matrices h2 ! 3 = matrices h1 ! 1 \<and> matrices h2 ! 4 = matrices h1 ! 2 \<and>
   matrices h2 ! 0 = matrices h0 ! 0 \<and> vectors h2 ! 0 = vectors h0 ! 0"
proof -
  have a: "(0 :: nat) < length (matrices h0)" and b: "(0 :: nat) < length (vectors h0)"
    by (simp_all add: h0_def)
  show ?thesis
    using partition_heap_pure[OF a b heap_example_first heap_example_second]
      a b heap_example_first heap_example_second
    by simp
qed

end
